theory Spec2Isabelle
  imports Main "HOL-Library.AList"
begin

section \<open>JavaScript values\<close>

text \<open>
  Tenant configuration and its \<open>__visibility\<close> annotation arrive as parsed JSON, so the
  model works on JSON-shaped values. An object is an association list in insertion order
  (the order of \<open>Object.entries\<close>) that holds the own properties;
  a plain object inherits the members of \<open>Object.prototype\<close>. Numbers are the integers;
  strings are ASCII. Objects are values: where the source shares one object between two
  places, the model says so at that place.

  Besides the JSON values there are: the named properties an array has received by
  assignment (a parsed array has none), the second argument of \<open>JArr\<close>; the built-in
  function \<open>JBuiltin n\<close> that a plain object inherits under the key \<open>n\<close>; and
  \<open>Object.prototype\<close> itself, which a plain object inherits under the key \<open>__proto__\<close>.
\<close>

datatype jsval =
    JUndefined
  | JNull
  | JBool bool
  | JNum int
  | JStr string
  | JArr "jsval list" "(string \<times> jsval) list"
  | JObj "(string \<times> jsval) list"
  | JBuiltin string
  | JObjectPrototype

type_synonym jsobject = "(string \<times> jsval) list"

text \<open>\<open>String.prototype.toLowerCase\<close> on ASCII text.\<close>

definition lowerChar :: "char \<Rightarrow> char" where
  "lowerChar c =
     (case map_of (zip ''ABCDEFGHIJKLMNOPQRSTUVWXYZ'' ''abcdefghijklmnopqrstuvwxyz'') c of
        Some d \<Rightarrow> d
      | None \<Rightarrow> c)"

definition toLowerCase :: "string \<Rightarrow> string" where
  "toLowerCase s = map lowerChar s"

text \<open>
  Conversion of a value to a property key (\<open>levels[vis]\<close> converts \<open>vis\<close> with
  \<open>ToString\<close>): a number prints in decimal (the exponent form of very large numbers is
  left out: no numeral is a key of any table here), an array joins its elements with commas
  and prints \<open>null\<close> and \<open>undefined\<close> elements as the empty string, a built-in function
  prints as its source text.
\<close>

fun digitsOf :: "nat \<Rightarrow> string" where
  "digitsOf n =
     (if n < 10 then [''0123456789'' ! n]
      else digitsOf (n div 10) @ [''0123456789'' ! (n mod 10)])"

definition numberToString :: "int \<Rightarrow> string" where
  "numberToString i = (if i < 0 then CHR ''-'' # digitsOf (nat (- i)) else digitsOf (nat i))"

fun joinWith :: "string \<Rightarrow> string list \<Rightarrow> string" where
  "joinWith sep [] = []"
| "joinWith sep [x] = x"
| "joinWith sep (x # y # ys) = x @ sep @ joinWith sep (y # ys)"

fun toPropertyKey :: "jsval \<Rightarrow> string" where
  "toPropertyKey JUndefined = ''undefined''"
| "toPropertyKey JNull = ''null''"
| "toPropertyKey (JBool b) = (if b then ''true'' else ''false'')"
| "toPropertyKey (JNum i) = numberToString i"
| "toPropertyKey (JStr s) = s"
| "toPropertyKey (JArr xs ps) =
     joinWith '',''
       (map (\<lambda>x. if x = JUndefined \<or> x = JNull then [] else toPropertyKey x) xs)"
| "toPropertyKey (JObj kvs) = ''[object Object]''"
| "toPropertyKey (JBuiltin n) =
     ''function '' @ (if n = ''constructor'' then ''Object'' else n) @ ''() { [native code] }''"
| "toPropertyKey JObjectPrototype = ''[object Object]''"

text \<open>Truthiness, as tested by \<open>if (v)\<close>, \<open>!v\<close> and \<open>v || d\<close>.\<close>

fun truthy :: "jsval \<Rightarrow> bool" where
  "truthy JUndefined = False"
| "truthy JNull = False"
| "truthy (JBool b) = b"
| "truthy (JNum i) = (i \<noteq> 0)"
| "truthy (JStr s) = (s \<noteq> [])"
| "truthy (JArr xs ps) = True"
| "truthy (JObj kvs) = True"
| "truthy (JBuiltin n) = True"
| "truthy JObjectPrototype = True"

text \<open>
  The members of \<open>Object.prototype\<close>: the functions a plain object inherits, and the
  accessor \<open>__proto__\<close>, whose getter returns the prototype of the object and whose setter
  replaces it.
\<close>

definition objectPrototypeMembers :: "string list" where
  "objectPrototypeMembers =
     [''constructor'', ''__defineGetter__'', ''__defineSetter__'', ''hasOwnProperty'',
      ''__lookupGetter__'', ''__lookupSetter__'', ''isPrototypeOf'', ''propertyIsEnumerable'',
      ''toString'', ''valueOf'', ''toLocaleString'']"

definition inheritedProp :: "string \<Rightarrow> jsval" where
  "inheritedProp key =
     (if key \<in> set objectPrototypeMembers then JBuiltin key
      else if key = ''__proto__'' then JObjectPrototype
      else JUndefined)"

text \<open>
  \<open>obj[key]\<close> on a plain object: the own property, else the inherited member, else
  \<open>undefined\<close>.
\<close>

definition getProp :: "jsobject \<Rightarrow> string \<Rightarrow> jsval" where
  "getProp obj key = (case map_of obj key of Some v \<Rightarrow> v | None \<Rightarrow> inheritedProp key)"

text \<open>
  \<open>typeof v === 'object' && v !== null && !Array.isArray(v)\<close>, and \<open>v[key]\<close> for such a
  value: \<open>Object.prototype\<close> has its members as own properties and the prototype \<open>null\<close>.
\<close>

definition isObject :: "jsval \<Rightarrow> bool" where
  "isObject v = (case v of JObj obj \<Rightarrow> True | JObjectPrototype \<Rightarrow> True | _ \<Rightarrow> False)"

definition readProp :: "jsval \<Rightarrow> string \<Rightarrow> jsval" where
  "readProp v key =
     (case v of
        JObj obj \<Rightarrow> getProp obj key
      | JObjectPrototype \<Rightarrow>
          (if key \<in> set objectPrototypeMembers then JBuiltin key
           else if key = ''__proto__'' then JNull
           else JUndefined)
      | _ \<Rightarrow> JUndefined)"

text \<open>
  \<open>obj[key] = v\<close> on a plain object, seen through its own properties: the key \<open>__proto__\<close>,
  unless it is an own property, reaches the inherited setter, which adds no own property.
  The setter replaces the prototype of \<open>obj\<close> when \<open>v\<close> is an object or \<open>null\<close>; an object is
  its own properties here, so what \<open>obj\<close> inherits after such an assignment is outside the
  model. Only a visibility tree that has \<open>__proto__\<close> as an own key leads there.
\<close>

definition assignProp :: "string \<Rightarrow> jsval \<Rightarrow> jsobject \<Rightarrow> jsobject" where
  "assignProp key v obj =
     (if key = ''__proto__'' \<and> map_of obj key = None then obj else AList.update key v obj)"

text \<open>
  \<open>v?.name\<close> and \<open>v.name\<close> for the property names this code writes out (\<open>session\<close>,
  \<open>xsrf\<close>, \<open>name\<close>, \<open>cookie\<close>, \<open>url\<close> and the like; none is a member of a built-in
  prototype), on a JSON value or an array with assigned properties: \<open>undefined\<close> unless the
  value is an object or an array that has the property.
\<close>

definition optChain :: "jsval \<Rightarrow> string \<Rightarrow> jsval" where
  "optChain v key =
     (case v of
        JObj obj \<Rightarrow> getProp obj key
      | JArr xs ps \<Rightarrow> (case map_of ps key of Some x \<Rightarrow> x | None \<Rightarrow> JUndefined)
      | _ \<Rightarrow> JUndefined)"

text \<open>\<open>v ?? d\<close>.\<close>

definition nullish :: "jsval \<Rightarrow> jsval \<Rightarrow> jsval" where
  "nullish v d = (if v = JUndefined \<or> v = JNull then d else v)"

section \<open>Visibility filter (utils: filterConfigByVisibility, filterPublicConfig)\<close>

datatype ConfigVisibility = Public | Protected | Private

fun visibilityName :: "ConfigVisibility \<Rightarrow> string" where
  "visibilityName Public = ''public''"
| "visibilityName Protected = ''protected''"
| "visibilityName Private = ''private''"

text \<open>
  The table \<open>levels\<close> of \<open>isVisibilityAllowed\<close>. A key it lacks reads as \<open>undefined\<close>, or
  as an inherited member that is no number; either way the comparison below is false.
\<close>

definition levels :: "string \<Rightarrow> nat option" where
  "levels k =
     (if k = ''public'' then Some 3
      else if k = ''protected'' then Some 2
      else if k = ''private'' then Some 1
      else None)"

text \<open>
  \<open>levels[fieldVisibility] >= levels[minVisibility]\<close>: a comparison with \<open>undefined\<close> is
  false.
\<close>

definition isVisibilityAllowed :: "jsval \<Rightarrow> ConfigVisibility \<Rightarrow> bool" where
  "isVisibilityAllowed fieldVisibility minVisibility =
     (case (levels (toPropertyKey fieldVisibility), levels (visibilityName minVisibility)) of
        (Some a, Some b) \<Rightarrow> a \<ge> b
      | _ \<Rightarrow> False)"

text \<open>
  \<open>(typeof visValue === 'string' ? visValue.toLowerCase() : visValue) || 'private'\<close>
\<close>

definition leafVisibility :: "jsval \<Rightarrow> jsval" where
  "leafVisibility visValue =
     (let v = (case visValue of JStr s \<Rightarrow> JStr (toLowerCase s) | _ \<Rightarrow> visValue)
      in if truthy v then v else JStr ''private'')"

text \<open>
  The loop of \<open>filterByVisibilityKeys\<close> over \<open>Object.entries(visibility)\<close>, with the
  object \<open>filtered\<close> built so far as accumulator. \<open>configData\<close> is a plain object or,
  when it was read under the key \<open>__proto__\<close>, \<open>Object.prototype\<close>. A visibility value that
  is \<open>Object.prototype\<close> is an object without entries, so its nested result is empty.
\<close>

function filterEntries ::
  "ConfigVisibility \<Rightarrow> jsobject \<Rightarrow> jsval \<Rightarrow> jsobject \<Rightarrow> jsobject" where
  "filterEntries minVisibility [] configData filtered = filtered"
| "filterEntries minVisibility ((key, visValue) # rest) configData filtered =
     filterEntries minVisibility rest configData
       (case visValue of
          JObj visChild \<Rightarrow>
            (let childConfig = readProp configData key
             in if isObject childConfig
                then (let filteredChild = filterEntries minVisibility visChild childConfig []
                      in if length filteredChild > 0
                         then assignProp key (JObj filteredChild) filtered
                         else filtered)
                else filtered)
        | JObjectPrototype \<Rightarrow> filtered
        | _ \<Rightarrow>
            (if isVisibilityAllowed (leafVisibility visValue) minVisibility
             then assignProp key (nullish (readProp configData key) JNull) filtered
             else filtered))"
  by pat_completeness auto
termination
  by (relation "measure (\<lambda>(m, vis, cfg, acc). size_list (size_prod (\<lambda>_. 0) size) vis)") auto

text \<open>The body of the loop for one entry: the object \<open>filtered\<close> after that entry.\<close>

definition filterStep ::
  "ConfigVisibility \<Rightarrow> string \<Rightarrow> jsval \<Rightarrow> jsval \<Rightarrow> jsobject \<Rightarrow> jsobject" where
  "filterStep minVisibility key visValue configData filtered =
     (case visValue of
        JObj visChild \<Rightarrow>
          (let childConfig = readProp configData key
           in if isObject childConfig
              then (let filteredChild = filterEntries minVisibility visChild childConfig []
                    in if length filteredChild > 0
                       then assignProp key (JObj filteredChild) filtered
                       else filtered)
              else filtered)
      | JObjectPrototype \<Rightarrow> filtered
      | _ \<Rightarrow>
          (if isVisibilityAllowed (leafVisibility visValue) minVisibility
           then assignProp key (nullish (readProp configData key) JNull) filtered
           else filtered))"

definition filterByVisibilityKeys :: "ConfigVisibility \<Rightarrow> jsobject \<Rightarrow> jsobject \<Rightarrow> jsobject" where
  "filterByVisibilityKeys minVisibility visibility configData =
     filterEntries minVisibility visibility (JObj configData) []"

text \<open>
  \<open>filterConfigByVisibility(config, visibility, minVisibility = 'public')\<close>; an absent
  visibility argument is \<open>None\<close> (\<open>visibility || {}\<close>), an omitted level is \<open>None\<close>.
\<close>

definition filterConfigByVisibility ::
  "jsobject \<Rightarrow> jsobject option \<Rightarrow> ConfigVisibility option \<Rightarrow> jsobject" where
  "filterConfigByVisibility config visibility minVisibilityArg =
     (let minVisibility = (case minVisibilityArg of None \<Rightarrow> Public | Some m \<Rightarrow> m);
          visibilityTree = (case visibility of None \<Rightarrow> [] | Some v \<Rightarrow> v)
      in filterByVisibilityKeys minVisibility visibilityTree config)"

text \<open>
  Thrown values: the \<open>Error\<close> of \<open>filterPublicConfig\<close>, the \<open>Error\<close> with \<open>code = 404\<close> and
  the \<open>Error\<close> with \<open>url\<close> and \<open>code\<close> of the not-found policy, and any other fault with
  its message.
\<close>

datatype error =
    VisibilityMissing
  | TenantNotFound
  | Redirect string int
  | Fault string

text \<open>\<open>filterPublicConfig\<close> throws \<open>Error('Visibility metadata required ...')\<close>.\<close>

definition filterPublicConfig :: "jsobject \<Rightarrow> jsobject option \<Rightarrow> error + jsobject" where
  "filterPublicConfig config visibility =
     (case visibility of
        None \<Rightarrow> Inl VisibilityMissing
      | Some v \<Rightarrow>
          if length v = 0 then Inl VisibilityMissing
          else Inr (filterConfigByVisibility config visibility (Some Public)))"

subsection \<open>Vocabulary for the properties of the filter\<close>

text \<open>
  A key path of an object: a non-empty list of keys that can be followed from the root,
  each key but the last leading to a nested object.
\<close>

fun isKeyPath :: "jsobject \<Rightarrow> string list \<Rightarrow> bool" where
  "isKeyPath obj [] = False"
| "isKeyPath obj (k # r) =
     list_ex (\<lambda>(k', v). k' = k \<and> (r = [] \<or> (case v of JObj c \<Rightarrow> isKeyPath c r | _ \<Rightarrow> False))) obj"

text \<open>
  A path is covered by a visibility tree when it follows keys of the tree until the path
  ends or it reaches a key whose annotation is a leaf (anything but a nested tree).
\<close>

fun coveredBy :: "jsobject \<Rightarrow> string list \<Rightarrow> bool" where
  "coveredBy vis [] = False"
| "coveredBy vis (k # r) =
     list_ex (\<lambda>(k', vv). k' = k \<and> (case vv of JObj vc \<Rightarrow> r = [] \<or> coveredBy vc r | _ \<Rightarrow> True)) vis"

text \<open>A leaf of a visibility tree: any value but a nested tree (an object).\<close>

definition isLeaf :: "jsval \<Rightarrow> bool" where
  "isLeaf v = (case v of JObj vc \<Rightarrow> False | JObjectPrototype \<Rightarrow> False | _ \<Rightarrow> True)"











text \<open>
  The visibility tree with every string leaf label in lower case; keys, nesting and
  non-string leaves are kept. Two trees with the same image differ only in the letter
  case of their string leaf labels.
\<close>

function lowerLabels :: "jsobject \<Rightarrow> jsobject" where
  "lowerLabels [] = []"
| "lowerLabels ((key, visValue) # rest) =
     (key, (case visValue of
              JStr s \<Rightarrow> JStr (toLowerCase s)
            | JObj visChild \<Rightarrow> JObj (lowerLabels visChild)
            | _ \<Rightarrow> visValue))
     # lowerLabels rest"
  by pat_completeness auto
termination
  by (relation "measure (size_list (size_prod (\<lambda>_. 0) size))") auto

section \<open>Tenant records (types)\<close>

text \<open>
  \<open>PublicTenantData\<close> and \<open>Tenant\<close>. The field \<open>id\<close> is \<open>tenant_id\<close> here, \<open>config\<close> is
  the configuration object with its \<open>__visibility\<close> entry, and the embedded \<open>parent\<close>, which
  no function reads, is kept as a JSON value.
\<close>

record PublicTenantData =
  tenant_id :: string
  name :: string
  "identifier" :: string
  config :: jsobject

record Tenant = PublicTenantData +
  parent_id :: "string option"
  is_active :: bool
  is_internal :: bool
  created_at :: string
  updated_at :: string
  parent :: jsval

section \<open>Cookie names (cookies)\<close>

text \<open>
  The argument is a tenant, \<open>null\<close> or \<open>undefined\<close> (\<open>None\<close>). The custom name is read with
  \<open>cookieConfig?.xsrf?.name\<close> and returned as it is when truthy.
\<close>

definition createTenantXsrfCookieName :: "'a PublicTenantData_scheme option \<Rightarrow> jsval" where
  "createTenantXsrfCookieName tenant =
     (let cookieConfig = (case tenant of None \<Rightarrow> JUndefined | Some t \<Rightarrow> JObj (config t));
          customName = optChain (optChain cookieConfig ''xsrf'') ''name''
      in if truthy customName then customName
         else (case tenant of
                 Some t \<Rightarrow>
                   if tenant_id t \<noteq> [] then JStr (''tenant_'' @ tenant_id t @ ''_xsrf'')
                   else JStr ''XSRF-TOKEN''
               | None \<Rightarrow> JStr ''XSRF-TOKEN''))"

definition createTenantSessionCookieName :: "'a PublicTenantData_scheme option \<Rightarrow> jsval" where
  "createTenantSessionCookieName tenant =
     (let cookieConfig = (case tenant of None \<Rightarrow> JUndefined | Some t \<Rightarrow> JObj (config t));
          customName = optChain (optChain cookieConfig ''session'') ''name''
      in if truthy customName then customName
         else (case tenant of
                 Some t \<Rightarrow>
                   if tenant_id t \<noteq> [] then JStr (''tenant_'' @ tenant_id t @ ''_session'')
                   else JStr ''laravel_session''
               | None \<Rightarrow> JStr ''laravel_session''))"

section \<open>Identifier extraction (TenantResolver)\<close>

datatype TenantResolutionStrategy =
  DomainStrategy | PathStrategy | HeaderStrategy | SubdomainStrategy

record TenantStrategyConfig =
  strategy :: TenantResolutionStrategy
  headerName :: "string option"
  pathIndex :: "int option"
  subdomainLevel :: "int option"

text \<open>
  The part of an Express request the resolver reads: \<open>req.get(name)\<close> for a header,
  \<open>req.hostname\<close>, \<open>req.path\<close> and \<open>req.url\<close>.
\<close>

record Request =
  get :: "string \<Rightarrow> string option"
  hostname :: string
  path :: string
  url :: string

text \<open>\<open>s.split(sep)\<close> for a separator of one character; the result is never empty.\<close>

fun splitOn :: "char \<Rightarrow> string \<Rightarrow> string list" where
  "splitOn sep [] = [[]]"
| "splitOn sep (c # cs) =
     (if c = sep then [] # splitOn sep cs
      else (case splitOn sep cs of
              p # ps \<Rightarrow> (c # p) # ps
            | [] \<Rightarrow> [[c]]))"

text \<open>A string that is absent or empty is falsy.\<close>

definition nonEmpty :: "string option \<Rightarrow> string option" where
  "nonEmpty v = (case v of Some s \<Rightarrow> if s \<noteq> [] then Some s else None | None \<Rightarrow> None)"

definition extractDomain :: "'a Request_scheme \<Rightarrow> string" where
  "extractDomain req =
     (case nonEmpty (get req ''x-forwarded-host'') of
        Some forwardedHost \<Rightarrow> hd (splitOn CHR '':'' forwardedHost)
      | None \<Rightarrow>
          (case nonEmpty (get req ''host'') of
             Some host \<Rightarrow> hd (splitOn CHR '':'' host)
           | None \<Rightarrow> hostname req))"

definition extractSubdomain :: "'a Request_scheme \<Rightarrow> int \<Rightarrow> string option" where
  "extractSubdomain req level =
     (let host = extractDomain req;
          parts = splitOn CHR ''.'' host
      in if length parts \<le> 2 then None
         else if level \<ge> 0 \<and> level < int (length parts) - 2 then Some (parts ! nat level)
         else None)"

definition extractFromPath :: "'a Request_scheme \<Rightarrow> int \<Rightarrow> string option" where
  "extractFromPath req index =
     (let p = (if path req \<noteq> [] then path req else url req);
          segments = filter (\<lambda>s. length s > 0) (splitOn CHR ''/'' p)
      in if index \<ge> 0 \<and> index < int (length segments) then Some (segments ! nat index)
         else None)"

definition extractFromHeader :: "'a Request_scheme \<Rightarrow> string \<Rightarrow> string option" where
  "extractFromHeader req header = nonEmpty (get req header)"

definition extractIdentifier :: "TenantStrategyConfig \<Rightarrow> 'a Request_scheme \<Rightarrow> string option" where
  "extractIdentifier sc req =
     (case strategy sc of
        DomainStrategy \<Rightarrow> Some (extractDomain req)
      | SubdomainStrategy \<Rightarrow>
          extractSubdomain req (case subdomainLevel sc of Some l \<Rightarrow> l | None \<Rightarrow> 0)
      | PathStrategy \<Rightarrow>
          extractFromPath req (case pathIndex sc of Some i \<Rightarrow> i | None \<Rightarrow> 0)
      | HeaderStrategy \<Rightarrow>
          extractFromHeader req
            (case nonEmpty (headerName sc) of Some h \<Rightarrow> h | None \<Rightarrow> ''X-Tenant-ID''))"

section \<open>Tenant cache (TenantCacheService)\<close>

text \<open>
  The \<open>Map\<close> of the service is an association list in insertion order: \<open>Map.set\<close> is
  \<open>AList.update\<close>, \<open>Map.delete\<close> is \<open>AList.delete\<close>. \<open>Date.now()\<close> is the argument \<open>now\<close>, in
  milliseconds. The timer handle \<open>cleanupInterval\<close> is kept as a flag, and
  \<open>cleanupExpired\<close> is one sweep of the timer; \<open>initialize\<close>, which starts the timer or
  preloads over the network, is left out.
\<close>

datatype CacheMode = Preload | Lazy | Disabled

datatype expiry = At int | Infinity

record CacheEntry =
  tenant :: Tenant
  expiresAt :: expiry

record TenantCacheService =
  cache :: "(string \<times> CacheEntry) list"
  mode :: CacheMode
  ttl :: int
  endpointPrefix :: string
  cleanupInterval :: bool

definition newTenantCacheService ::
  "CacheMode option \<Rightarrow> int option \<Rightarrow> string option \<Rightarrow> TenantCacheService" where
  "newTenantCacheService modeArg ttlSeconds prefixArg =
     \<lparr>cache = [],
      mode = (case modeArg of Some m \<Rightarrow> m | None \<Rightarrow> Lazy),
      ttl = (case ttlSeconds of Some n \<Rightarrow> n | None \<Rightarrow> 300) * 1000,
      endpointPrefix = (case prefixArg of Some p \<Rightarrow> p | None \<Rightarrow> ''tenant-info''),
      cleanupInterval = False\<rparr>"

fun isAfter :: "int \<Rightarrow> expiry \<Rightarrow> bool" where
  "isAfter now (At t) = (now > t)"
| "isAfter now Infinity = False"

definition TenantCacheService_get ::
  "TenantCacheService \<Rightarrow> int \<Rightarrow> string \<Rightarrow> Tenant option \<times> TenantCacheService" where
  "TenantCacheService_get svc now key =
     (if mode svc = Disabled then (None, svc)
      else (case map_of (cache svc) key of
              None \<Rightarrow> (None, svc)
            | Some entry \<Rightarrow>
                if mode svc = Lazy \<and> isAfter now (expiresAt entry)
                then (None, svc\<lparr>cache := AList.delete key (cache svc)\<rparr>)
                else (Some (tenant entry), svc)))"

definition TenantCacheService_set ::
  "TenantCacheService \<Rightarrow> int \<Rightarrow> string \<Rightarrow> Tenant \<Rightarrow> TenantCacheService" where
  "TenantCacheService_set svc now key tn =
     (if mode svc = Disabled then svc
      else (let expires = (if mode svc = Preload then Infinity else At (now + ttl svc))
            in svc\<lparr>cache := AList.update key \<lparr>tenant = tn, expiresAt = expires\<rparr> (cache svc)\<rparr>))"

definition TenantCacheService_delete :: "TenantCacheService \<Rightarrow> string \<Rightarrow> TenantCacheService" where
  "TenantCacheService_delete svc key = svc\<lparr>cache := AList.delete key (cache svc)\<rparr>"

definition TenantCacheService_clear :: "TenantCacheService \<Rightarrow> TenantCacheService" where
  "TenantCacheService_clear svc = svc\<lparr>cache := []\<rparr>"

definition cleanupExpired :: "TenantCacheService \<Rightarrow> int \<Rightarrow> TenantCacheService" where
  "cleanupExpired svc now =
     svc\<lparr>cache := filter (\<lambda>(key, entry). \<not> isAfter now (expiresAt entry)) (cache svc)\<rparr>"

definition TenantCacheService_destroy :: "TenantCacheService \<Rightarrow> TenantCacheService" where
  "TenantCacheService_destroy svc = svc\<lparr>cleanupInterval := False, cache := []\<rparr>"

section \<open>Request hooks (TenantRequestHooks)\<close>

subsection \<open>Effects\<close>

text \<open>
  A call either returns a value or throws. A program is a state transformer that yields an
  outcome; \<open>js_bind\<close> sequences two programs and stops at a throw, \<open>js_catch\<close> is
  \<open>try { ... } catch (error) { ... }\<close>. An awaited promise that rejects is a throw.
\<close>

datatype 'a outcome = Returns 'a | Throws error

type_synonym ('a, 's) js = "'s \<Rightarrow> 'a outcome \<times> 's"

definition js_return :: "'a \<Rightarrow> ('a, 's) js" where
  "js_return x = (\<lambda>s. (Returns x, s))"

definition js_throw :: "error \<Rightarrow> ('a, 's) js" where
  "js_throw e = (\<lambda>s. (Throws e, s))"

definition js_bind :: "('a, 's) js \<Rightarrow> ('a \<Rightarrow> ('b, 's) js) \<Rightarrow> ('b, 's) js" where
  "js_bind m f = (\<lambda>s. case m s of (Returns a, s') \<Rightarrow> f a s' | (Throws e, s') \<Rightarrow> (Throws e, s'))"

definition js_catch :: "('a, 's) js \<Rightarrow> (error \<Rightarrow> ('a, 's) js) \<Rightarrow> ('a, 's) js" where
  "js_catch m h = (\<lambda>s. case m s of (Returns a, s') \<Rightarrow> (Returns a, s') | (Throws e, s') \<Rightarrow> h e s')"

subsection \<open>Requests, collaborators and state\<close>

text \<open>
  The per-request context \<open>req.quvelContext\<close> holds a start time, the tenant (absent,
  \<open>null\<close> or a tenant record) and the application configuration. The extractor, the cache,
  the fetch and the logger are collaborators: each call acts on a world \<open>'w\<close> (caches, the
  network, the clock) and returns or throws. \<open>resolver_resolveTenantByIdentifier\<close> stands
  for \<open>resolveTenantByIdentifier(identifier, this.apiService.getAxiosInstance())\<close>. The
  state of a run is the world, the record of the collaborator calls made so far, the
  request and the window bag (the client payload under \<open>__APP_CONFIG__\<close>). Of the service
  configuration only the not-found policy and the merge handler are read per request.
  The tenant of the context is \<open>context_tenant\<close> and the fields of a fetch result carry the
  prefix \<open>result_\<close>, since \<open>tenant\<close> names the field of a cache entry.
\<close>

record QuvelContext =
  startTime :: int
  context_tenant :: "Tenant option option"
  appConfig :: "jsobject option"

record SSRRequest = Request +
  quvelContext :: "QuvelContext option"

record FetchResult =
  result_tenant :: "Tenant option"
  result_error :: "string option"
  result_url :: "string option"

datatype LogLevel = LogDebug | LogInfo | LogWarning | LogError

datatype Call =
    CallExtractIdentifier
  | CallCacheGet string
  | CallResolveTenantByIdentifier string
  | CallCacheSet string Tenant
  | CallLogger LogLevel string
  | CallNotFoundHandler
  | CallMergeTenantConfig

record 'w Collaborators =
  resolver_extractIdentifier :: "SSRRequest \<Rightarrow> 'w \<Rightarrow> string option outcome \<times> 'w"
  cache_get :: "string \<Rightarrow> 'w \<Rightarrow> Tenant option outcome \<times> 'w"
  resolver_resolveTenantByIdentifier :: "string \<Rightarrow> 'w \<Rightarrow> FetchResult outcome \<times> 'w"
  cache_set :: "string \<Rightarrow> Tenant \<Rightarrow> 'w \<Rightarrow> unit outcome \<times> 'w"
  logger :: "LogLevel \<Rightarrow> string \<Rightarrow> 'w \<Rightarrow> unit outcome \<times> 'w"
  date_now :: "'w \<Rightarrow> int"

record 'w HookState =
  world :: 'w
  calls :: "Call list"
  request :: SSRRequest
  windowBag :: jsobject

datatype 'w TenantNotFoundAction =
    Action404
  | ActionRedirect string "int option"
  | ActionRender
  | ActionCustom "(SSRRequest \<Rightarrow> 'w \<Rightarrow> unit outcome \<times> SSRRequest \<times> 'w) option"

record 'w TenantRequestHooksConfig =
  onTenantNotFound :: "'w TenantNotFoundAction option"
  mergeTenantConfig ::
    "(jsobject \<Rightarrow> jsobject \<Rightarrow> 'w \<Rightarrow> unit outcome \<times> jsobject \<times> jsobject \<times> 'w) option"

definition invoke :: "Call \<Rightarrow> ('w \<Rightarrow> 'a outcome \<times> 'w) \<Rightarrow> ('a, 'w HookState) js" where
  "invoke c m = (\<lambda>s. case m (world s) of (r, w') \<Rightarrow> (r, s\<lparr>world := w', calls := calls s @ [c]\<rparr>))"

definition logMessage :: "'w Collaborators \<Rightarrow> LogLevel \<Rightarrow> string \<Rightarrow> (unit, 'w HookState) js" where
  "logMessage d lvl msg = invoke (CallLogger lvl msg) (logger d lvl msg)"

subsection \<open>resolveTenant\<close>

text \<open>
  \<open>resolveTenant_try\<close> is the body of the \<open>try\<close> block, each early \<open>return\<close> a branch;
  \<open>resolveTenant\<close> adds the \<open>catch\<close> block, which logs and returns \<open>null\<close>.
\<close>

definition resolveTenant_try ::
  "'w Collaborators \<Rightarrow> SSRRequest \<Rightarrow> (Tenant option, 'w HookState) js" where
  "resolveTenant_try d req =
     js_bind (invoke CallExtractIdentifier (resolver_extractIdentifier d req)) (\<lambda>extracted.
       case nonEmpty extracted of
         None \<Rightarrow>
           js_bind (logMessage d LogWarning ''Could not extract tenant identifier'') (\<lambda>_.
             js_return None)
       | Some ident \<Rightarrow>
           js_bind (invoke (CallCacheGet ident) (cache_get d ident)) (\<lambda>cached.
             case cached of
               Some tn \<Rightarrow>
                 js_bind (logMessage d LogDebug ''Tenant resolved from cache'') (\<lambda>_.
                   js_return (Some tn))
             | None \<Rightarrow>
                 js_bind (invoke (CallResolveTenantByIdentifier ident)
                            (resolver_resolveTenantByIdentifier d ident)) (\<lambda>result.
                   if result_error result \<noteq> None
                   then js_bind (logMessage d LogError ''Tenant API resolution failed'') (\<lambda>_.
                          js_return None)
                   else (case result_tenant result of
                           Some tn \<Rightarrow>
                             js_bind (invoke (CallCacheSet ident tn) (cache_set d ident tn)) (\<lambda>_.
                               js_bind (logMessage d LogInfo ''Tenant resolved from API'') (\<lambda>_.
                                 js_return (Some tn)))
                         | None \<Rightarrow>
                             js_bind (logMessage d LogWarning ''Tenant not found'') (\<lambda>_.
                               js_return None)))))"

definition resolveTenant ::
  "'w Collaborators \<Rightarrow> SSRRequest \<Rightarrow> (Tenant option, 'w HookState) js" where
  "resolveTenant d req =
     js_catch (resolveTenant_try d req) (\<lambda>e.
       js_bind (logMessage d LogError ''Tenant resolution failed'') (\<lambda>_.
         js_return None))"

subsection \<open>Not-found policy\<close>

text \<open>
  \<open>handleTenantNotFound\<close>: the action defaults to \<open>404\<close>, the redirect code to 302; a custom
  handler receives the request and may change it.
\<close>

definition handleTenantNotFound ::
  "'w TenantRequestHooksConfig \<Rightarrow> 'w Collaborators \<Rightarrow> (unit, 'w HookState) js" where
  "handleTenantNotFound hc d =
     (case (case onTenantNotFound hc of Some a \<Rightarrow> a | None \<Rightarrow> Action404) of
        Action404 \<Rightarrow> js_throw TenantNotFound
      | ActionRedirect target code \<Rightarrow>
          js_throw (Redirect target
            (case code of Some c \<Rightarrow> if c \<noteq> 0 then c else 302 | None \<Rightarrow> 302))
      | ActionRender \<Rightarrow>
          (\<lambda>s. let ctx = (case quvelContext (request s) of
                            Some c \<Rightarrow> c
                          | None \<Rightarrow> \<lparr>startTime = date_now d (world s), context_tenant = None,
                                      appConfig = None\<rparr>)
               in (Returns (),
                   s\<lparr>request := (request s)\<lparr>quvelContext := Some (ctx\<lparr>context_tenant := Some None\<rparr>)\<rparr>\<rparr>))
      | ActionCustom h \<Rightarrow>
          (case h of
             Some handler \<Rightarrow>
               (\<lambda>s. case handler (request s) (world s) of
                       (r, req', w') \<Rightarrow>
                         (r, s\<lparr>world := w', calls := calls s @ [CallNotFoundHandler], request := req'\<rparr>))
           | None \<Rightarrow> js_return ()))"

subsection \<open>Merging the tenant configuration\<close>

text \<open>
  \<open>Object.keys\<close> and \<open>Object.entries\<close> of a value: an array has its indices and then its
  assigned properties as keys, a string its indices; a number, a boolean, a built-in
  function and \<open>Object.prototype\<close> have none.
\<close>

definition objectEntries :: "jsval \<Rightarrow> jsobject" where
  "objectEntries v =
     (case v of
        JObj obj \<Rightarrow> obj
      | JArr xs ps \<Rightarrow> zip (map digitsOf [0..<length xs]) xs @ ps
      | JStr str \<Rightarrow> zip (map digitsOf [0..<length str]) (map (\<lambda>c. JStr [c]) str)
      | _ \<Rightarrow> [])"

text \<open>
  \<open>obj[a][b] = v\<close>, for the sections and property names this code writes out. An object
  and an array receive the property. The module is strict code: assigning to a property
  of a primitive, of \<open>null\<close> or of \<open>undefined\<close> raises a \<open>TypeError\<close>. A built-in function
  or \<open>Object.prototype\<close> in place of a section, which no JSON configuration holds, would
  receive the property itself and leave the own properties of \<open>obj\<close> as they are.
\<close>

definition assignNested :: "jsobject \<Rightarrow> string \<Rightarrow> string \<Rightarrow> jsval \<Rightarrow> error + jsobject" where
  "assignNested obj a b v =
     (case getProp obj a of
        JObj inner \<Rightarrow> Inr (AList.update a (JObj (AList.update b v inner)) obj)
      | JArr xs ps \<Rightarrow> Inr (AList.update a (JArr xs (AList.update b v ps)) obj)
      | JBuiltin n \<Rightarrow> Inr obj
      | JObjectPrototype \<Rightarrow> Inr obj
      | _ \<Rightarrow> Inl (Fault ''TypeError''))"

text \<open>
  \<open>if (source.f !== undefined) base[section].f = source.f\<close>, for each field \<open>f\<close> of the
  list in turn.
\<close>

fun assignFields :: "string list \<Rightarrow> jsval \<Rightarrow> string \<Rightarrow> jsobject \<Rightarrow> error + jsobject" where
  "assignFields [] source section base = Inr base"
| "assignFields (f # fs) source section base =
     (if optChain source f \<noteq> JUndefined
      then (case assignNested base section f (optChain source f) of
              Inl e \<Rightarrow> Inl e
            | Inr base' \<Rightarrow> assignFields fs source section base')
      else assignFields fs source section base)"

text \<open>
  One block of \<open>defaultMergeTenantConfig\<close>: \<open>if (tenantConfig[section]) { if
  (!baseConfig[section]) baseConfig[section] = initial; ...fields... }\<close>. The result holds the
  base configuration as mutated so far, also when an assignment throws.
\<close>

definition mergeSection ::
  "string \<Rightarrow> jsobject \<Rightarrow> string list \<Rightarrow> jsobject \<Rightarrow> jsobject \<Rightarrow> unit outcome \<times> jsobject" where
  "mergeSection section initial fieldNames baseConfig tenantConfig =
     (if truthy (getProp tenantConfig section)
      then (let base1 = (if truthy (getProp baseConfig section) then baseConfig
                         else AList.update section (JObj initial) baseConfig)
            in case assignFields fieldNames (getProp tenantConfig section) section base1 of
                 Inl e \<Rightarrow> (Throws e, base1)
               | Inr base2 \<Rightarrow> (Returns (), base2))
      else (Returns (), baseConfig))"

definition defaultMergeTenantConfig :: "jsobject \<Rightarrow> jsobject \<Rightarrow> unit outcome \<times> jsobject" where
  "defaultMergeTenantConfig baseConfig tenantConfig =
     (case mergeSection ''app'' [(''name'', JStr []), (''url'', JStr [])]
             [''name'', ''url'', ''env'', ''debug'', ''timezone'', ''locale'', ''fallback_locale'']
             baseConfig tenantConfig of
        (Throws e, base1) \<Rightarrow> (Throws e, base1)
      | (Returns _, base1) \<Rightarrow>
          mergeSection ''frontend'' [(''url'', JStr [])] [''url'', ''custom_scheme'']
            base1 tenantConfig)"

text \<open>
  \<open>this.config.mergeTenantConfig || this.defaultMergeTenantConfig\<close>, applied to a base
  configuration and the tenant configuration; both are returned as the handler left them.
\<close>

definition mergeHandler ::
  "'w TenantRequestHooksConfig \<Rightarrow> jsobject \<Rightarrow> jsobject \<Rightarrow> 'w HookState \<Rightarrow>
     unit outcome \<times> jsobject \<times> jsobject \<times> 'w HookState" where
  "mergeHandler hc baseConfig tenantConfig s =
     (case mergeTenantConfig hc of
        Some handler \<Rightarrow>
          (case handler baseConfig tenantConfig (world s) of
             (r, base', tc', w') \<Rightarrow>
               (r, base', tc', s\<lparr>world := w', calls := calls s @ [CallMergeTenantConfig]\<rparr>))
      | None \<Rightarrow>
          (case defaultMergeTenantConfig baseConfig tenantConfig of
             (r, base') \<Rightarrow> (r, base', tenantConfig, s)))"

definition extractPublicTenantConfig ::
  "'w Collaborators \<Rightarrow> Tenant \<Rightarrow> (jsobject, 'w HookState) js" where
  "extractPublicTenantConfig d tn =
     (let visibility = getProp (config tn) ''__visibility'';
          configWithoutMeta = AList.delete ''__visibility'' (config tn)
      in if truthy visibility \<and> length (objectEntries visibility) > 0
         then (case filterPublicConfig configWithoutMeta (Some (objectEntries visibility)) of
                 Inl e \<Rightarrow> js_throw e
               | Inr publicTenantConfig \<Rightarrow> js_return publicTenantConfig)
         else js_bind
                (logMessage d LogWarning
                   ''No __visibility metadata found in tenant.config, skipping config filtering'')
                (\<lambda>_. js_return []))"

definition ensureQuvelContext :: "'w Collaborators \<Rightarrow> 'w HookState \<Rightarrow> QuvelContext" where
  "ensureQuvelContext d s =
     (case quvelContext (request s) of
        Some c \<Rightarrow> c
      | None \<Rightarrow> \<lparr>startTime = date_now d (world s), context_tenant = None, appConfig = None\<rparr>)"

definition setContext :: "QuvelContext \<Rightarrow> 'w HookState \<Rightarrow> 'w HookState" where
  "setContext c s = s\<lparr>request := (request s)\<lparr>quvelContext := Some c\<rparr>\<rparr>"

definition buildSsrContext ::
  "'w TenantRequestHooksConfig \<Rightarrow> 'w Collaborators \<Rightarrow> Tenant \<Rightarrow> (unit, 'w HookState) js" where
  "buildSsrContext hc d tn =
     (\<lambda>s0.
        let ctx0 = (ensureQuvelContext d s0)\<lparr>context_tenant := Some (Some tn)\<rparr>;
            base0 = (case appConfig ctx0 of Some a \<Rightarrow> a | None \<Rightarrow> []);
            ctx1 = ctx0\<lparr>appConfig := Some base0\<rparr>
        in case extractPublicTenantConfig d tn (setContext ctx1 s0) of
             (Throws e, s1) \<Rightarrow> (Throws e, s1)
           | (Returns publicTenantConfig, s1) \<Rightarrow>
               (case mergeHandler hc base0 publicTenantConfig s1 of
                  (Throws e, base1, _, s2) \<Rightarrow>
                    (Throws e, setContext (ctx1\<lparr>appConfig := Some base1\<rparr>) s2)
                | (Returns _, base1, _, s2) \<Rightarrow>
                    (let base2 = (if truthy (getProp base1 ''session'') then base1
                                  else AList.update ''session'' (JObj []) base1)
                     in case assignNested base2 ''session'' ''cookie''
                               (createTenantSessionCookieName (Some tn)) of
                          Inl e \<Rightarrow> (Throws e, setContext (ctx1\<lparr>appConfig := Some base2\<rparr>) s2)
                        | Inr base3 \<Rightarrow>
                            (case assignNested base3 ''session'' ''xsrf_cookie''
                                    (createTenantXsrfCookieName (Some tn)) of
                               Inl e \<Rightarrow>
                                 (Throws e, setContext (ctx1\<lparr>appConfig := Some base3\<rparr>) s2)
                             | Inr base4 \<Rightarrow>
                                 (Returns (), setContext (ctx1\<lparr>appConfig := Some base4\<rparr>) s2)))))"

text \<open>
  \<open>buildPublicConfig\<close> works on the object the bag holds under \<open>__APP_CONFIG__\<close>, or on a
  fresh object when the bag holds none; the bag holds an object or nothing there. Changes
  to an object of the bag show in the bag at once, changes to a fresh object show only
  with the final \<open>bag.set\<close>.
\<close>

definition commitConfig :: "bool \<Rightarrow> jsobject \<Rightarrow> 'w HookState \<Rightarrow> 'w HookState" where
  "commitConfig inBag c s =
     (if inBag then s\<lparr>windowBag := AList.update ''__APP_CONFIG__'' (JObj c) (windowBag s)\<rparr> else s)"

definition mergeRequestSession :: "jsval \<Rightarrow> jsobject \<Rightarrow> error + jsobject" where
  "mergeRequestSession reqSession c =
     (if truthy reqSession
      then (let c1 = (if truthy (getProp c ''session'') then c
                      else AList.update ''session'' (JObj []) c)
            in if truthy (optChain reqSession ''xsrf_cookie'')
               then assignNested c1 ''session'' ''xsrf_cookie'' (optChain reqSession ''xsrf_cookie'')
               else Inr c1)
      else Inr c)"

definition publicTenant :: "Tenant \<Rightarrow> jsobject \<Rightarrow> jsval" where
  "publicTenant tn publicTenantConfig =
     JObj [(''id'', JStr (tenant_id tn)),
           (''name'', JStr (name tn)),
           (''identifier'', JStr (identifier tn)),
           (''parent_id'', (case parent_id tn of Some p \<Rightarrow> JStr p | None \<Rightarrow> JNull)),
           (''is_active'', JBool (is_active tn)),
           (''is_internal'', JBool (is_internal tn)),
           (''config'', JObj publicTenantConfig)]"

definition stripSessionCookie :: "jsobject \<Rightarrow> jsobject" where
  "stripSessionCookie c =
     (if truthy (optChain (getProp c ''session'') ''cookie'')
      then AList.update ''session''
             (JObj (AList.delete ''cookie'' (objectEntries (getProp c ''session'')))) c
      else c)"

definition buildPublicConfig ::
  "'w TenantRequestHooksConfig \<Rightarrow> 'w Collaborators \<Rightarrow> Tenant \<Rightarrow> (unit, 'w HookState) js" where
  "buildPublicConfig hc d tn =
     (\<lambda>s0.
        let inBag = (case getProp (windowBag s0) ''__APP_CONFIG__'' of JObj c \<Rightarrow> True | _ \<Rightarrow> False);
            c0 = (case getProp (windowBag s0) ''__APP_CONFIG__'' of JObj c \<Rightarrow> c | _ \<Rightarrow> []);
            reqSession = (case quvelContext (request s0) of
                            Some ctx \<Rightarrow>
                              (case appConfig ctx of
                                 Some a \<Rightarrow> getProp a ''session''
                               | None \<Rightarrow> JUndefined)
                          | None \<Rightarrow> JUndefined)
        in case mergeRequestSession reqSession c0 of
             Inl e \<Rightarrow> (Throws e, s0)
           | Inr c1 \<Rightarrow>
               (case extractPublicTenantConfig d tn (commitConfig inBag c1 s0) of
                  (Throws e, s1) \<Rightarrow> (Throws e, s1)
                | (Returns publicTenantConfig, s1) \<Rightarrow>
                    (case mergeHandler hc c1 publicTenantConfig s1 of
                       (Throws e, c2, _, s2) \<Rightarrow> (Throws e, commitConfig inBag c2 s2)
                     | (Returns _, c2, ptc, s2) \<Rightarrow>
                         (let c3 = AList.update ''tenant'' (publicTenant tn ptc) c2
                          in case (if truthy (getProp c3 ''trace'')
                                   then assignNested c3 ''trace'' ''tenant'' (JStr (tenant_id tn))
                                   else Inr c3) of
                               Inl e \<Rightarrow> (Throws e, commitConfig inBag c3 s2)
                             | Inr c4 \<Rightarrow>
                                 (Returns (), commitConfig True (stripSessionCookie c4) s2)))))"

subsection \<open>enrichWindowBag\<close>

text \<open>
  The hook of the render pipeline: with no tenant it returns at once under the \<open>render\<close>
  policy and otherwise runs the not-found policy; with a tenant it builds the per-request
  context and then the client payload.
\<close>

definition enrichWindowBag ::
  "'w TenantRequestHooksConfig \<Rightarrow> 'w Collaborators \<Rightarrow> (unit, 'w HookState) js" where
  "enrichWindowBag hc d =
     (\<lambda>s. js_bind (resolveTenant d (request s)) (\<lambda>resolved.
             case resolved of
               None \<Rightarrow>
                 (case onTenantNotFound hc of
                    Some ActionRender \<Rightarrow> js_return ()
                  | _ \<Rightarrow> handleTenantNotFound hc d)
             | Some tn \<Rightarrow>
                 js_bind (buildSsrContext hc d tn) (\<lambda>_. buildPublicConfig hc d tn)) s)"

subsection \<open>The collaborators of the service\<close>

text \<open>
  The constructor of \<open>TenantRequestHooks\<close> builds a \<open>TenantResolver\<close> and a
  \<open>TenantCacheService\<close>. Here they are wired as collaborators over a world that holds the
  cache service, the clock and the backend's answer to a fetch; the logger does nothing.
\<close>

record World =
  service :: TenantCacheService
  clock :: int
  backend :: "string \<Rightarrow> FetchResult outcome"

definition hooksCollaborators :: "TenantStrategyConfig \<Rightarrow> World Collaborators" where
  "hooksCollaborators sc =
     \<lparr>resolver_extractIdentifier = (\<lambda>req w. (Returns (extractIdentifier sc req), w)),
      cache_get = (\<lambda>key w. case TenantCacheService_get (service w) (clock w) key of
                              (r, svc') \<Rightarrow> (Returns r, w\<lparr>service := svc'\<rparr>)),
      resolver_resolveTenantByIdentifier = (\<lambda>key w. (backend w key, w)),
      cache_set = (\<lambda>key tn w.
                     (Returns (), w\<lparr>service := TenantCacheService_set (service w) (clock w) key tn\<rparr>)),
      logger = (\<lambda>lvl msg w. (Returns (), w)),
      date_now = clock\<rparr>"

subsection \<open>Vocabulary for the properties of the resolver and the cookie names\<close>

text \<open>A request that carries only a \<open>host\<close> header, and the strategy \<open>subdomain(level = 0)\<close>.\<close>

definition exampleRequest :: "string \<Rightarrow> Request" where
  "exampleRequest host =
     \<lparr>get = (\<lambda>h. if h = ''host'' then Some host else None),
      hostname = ''localhost'', path = ''/t/dashboard'', url = ''/t/dashboard?x=1''\<rparr>"

definition subdomainLevel0 :: TenantStrategyConfig where
  "subdomainLevel0 =
     \<lparr>strategy = SubdomainStrategy, headerName = None, pathIndex = None, subdomainLevel = Some 0\<rparr>"

text \<open>
  The custom cookie name a tenant declares: the value at \<open>config.<section>.name\<close>, or
  \<open>undefined\<close>; and whether the tenant has a truthy id.
\<close>

definition customCookieName :: "string \<Rightarrow> 'a PublicTenantData_scheme option \<Rightarrow> jsval" where
  "customCookieName section tn =
     (case tn of
        None \<Rightarrow> JUndefined
      | Some t \<Rightarrow>
          (case map_of (config t) section of
             Some (JObj sec) \<Rightarrow> (case map_of sec ''name'' of Some v \<Rightarrow> v | None \<Rightarrow> JUndefined)
           | Some (JArr xs ps) \<Rightarrow> (case map_of ps ''name'' of Some v \<Rightarrow> v | None \<Rightarrow> JUndefined)
           | _ \<Rightarrow> JUndefined))"

definition hasTruthyId :: "'a PublicTenantData_scheme option \<Rightarrow> bool" where
  "hasTruthyId tn = (case tn of Some t \<Rightarrow> tenant_id t \<noteq> [] | None \<Rightarrow> False)"

text \<open>A tenant record with a given configuration, and a lazy cache with a TTL of one second.\<close>

definition exampleTenant :: "jsobject \<Rightarrow> Tenant" where
  "exampleTenant cfg =
     \<lparr>tenant_id = ''t1'', name = ''Acme'', identifier = ''acme.example.com'', config = cfg,
      parent_id = None, is_active = True, is_internal = False,
      created_at = ''2025-01-01'', updated_at = ''2025-01-02'', parent = JNull\<rparr>"

definition lazyOneSecond :: TenantCacheService where
  "lazyOneSecond = newTenantCacheService (Some Lazy) (Some 1) None"

subsection \<open>Vocabulary for the properties of the request hooks\<close>

text \<open>
  The calls a run added to the record of calls, and whether a call is a fetch. A program
  keeps the views when it changes neither the request (with its per-request context) nor
  the client payload.
\<close>

definition isFetchCall :: "Call \<Rightarrow> bool" where
  "isFetchCall c = (case c of CallResolveTenantByIdentifier i \<Rightarrow> True | _ \<Rightarrow> False)"

definition newCalls :: "'w HookState \<Rightarrow> 'w HookState \<Rightarrow> Call list" where
  "newCalls s s' = drop (length (calls s)) (calls s')"

definition keepsViews :: "('a, 'w HookState) js \<Rightarrow> bool" where
  "keepsViews m = (\<forall>s. request (snd (m s)) = request s \<and> windowBag (snd (m s)) = windowBag s)"

text \<open>
  A request without a per-request context, a state whose backend refuses every fetch and
  whose client payload holds a base configuration, and the \<open>render\<close> not-found policy.
\<close>

definition exampleSSRRequest :: "string \<Rightarrow> SSRRequest" where
  "exampleSSRRequest host =
     \<lparr>get = (\<lambda>h. if h = ''host'' then Some host else None),
      hostname = ''localhost'', path = ''/t/dashboard'', url = ''/t/dashboard?x=1'',
      quvelContext = None\<rparr>"

definition exampleState :: "TenantCacheService \<Rightarrow> string \<Rightarrow> World HookState" where
  "exampleState svc host =
     \<lparr>world = \<lparr>service = svc, clock = 5000, backend = (\<lambda>key. Throws (Fault ''ECONNREFUSED''))\<rparr>,
      calls = [],
      request = exampleSSRRequest host,
      windowBag = [(''__APP_CONFIG__'', JObj [(''app'', JObj [(''name'', JStr ''Base'')])])]\<rparr>"

definition renderPolicy :: "World TenantRequestHooksConfig" where
  "renderPolicy = \<lparr>onTenantNotFound = Some ActionRender, mergeTenantConfig = None\<rparr>"

text \<open>
  A tenant configuration with a public, a private and a protected field, and a state whose
  backend answers every fetch with that tenant.
\<close>

definition acmeConfig :: jsobject where
  "acmeConfig =
     [(''app'', JObj [(''name'', JStr ''Acme Portal''), (''key'', JStr ''secret'')]),
      (''branding'', JObj [(''logo'', JStr ''logo.png'')]),
      (''__visibility'',
       JObj [(''app'', JObj [(''name'', JStr ''public''), (''key'', JStr ''private'')]),
             (''branding'', JObj [(''logo'', JStr ''protected'')])])]"

definition answeringState :: "World HookState" where
  "answeringState =
     \<lparr>world = \<lparr>service = lazyOneSecond, clock = 5000,
                backend = (\<lambda>key. Returns \<lparr>result_tenant = Some (exampleTenant acmeConfig),
                                           result_error = None, result_url = None\<rparr>)\<rparr>,
      calls = [],
      request = exampleSSRRequest ''x.a.b.com'',
      windowBag = [(''__APP_CONFIG__'', JObj [(''trace'', JObj [])])]\<rparr>"

section \<open>Properties\<close>

subsection \<open>Visibility filter\<close>

lemma isKeyPath_Nil: "\<not> isKeyPath [] p"
  by (cases p) auto

lemma coveredBy_Cons: "coveredBy rest p \<Longrightarrow> coveredBy (kv # rest) p"
  by (cases p) auto

lemma list_ex_update:
  "list_ex P (AList.update k v acc) \<Longrightarrow> list_ex P acc \<or> P (k, v)"
  by (induction acc) (auto split: if_splits)

lemma isKeyPath_update:
  assumes "isKeyPath (AList.update k v acc) p"
  shows "isKeyPath acc p \<or> (\<exists>r. p = k # r \<and> (r = [] \<or> (\<exists>c. v = JObj c \<and> isKeyPath c r)))"
proof (cases p)
  case Nil
  with assms show ?thesis by simp
next
  case (Cons k' r)
  let ?P = "\<lambda>(k'', v). k'' = k' \<and> (r = [] \<or> (case v of JObj c \<Rightarrow> isKeyPath c r | _ \<Rightarrow> False))"
  from assms Cons have "list_ex ?P (AList.update k v acc)" by simp
  then have "list_ex ?P acc \<or> ?P (k, v)" by (rule list_ex_update)
  then show ?thesis
  proof
    assume "list_ex ?P acc"
    then show ?thesis using Cons by simp
  next
    assume "?P (k, v)"
    then show ?thesis using Cons by (cases v) auto
  qed
qed

lemma isKeyPath_assign:
  assumes "isKeyPath (assignProp k v acc) p"
  shows "isKeyPath acc p \<or> (\<exists>r. p = k # r \<and> (r = [] \<or> (\<exists>c. v = JObj c \<and> isKeyPath c r)))"
  using assms isKeyPath_update[of k v acc p] by (auto simp: assignProp_def split: if_splits)

lemma coveredBy_leaf:
  "\<not> (\<exists>c. visValue = JObj c) \<Longrightarrow> coveredBy ((key, visValue) # rest) (key # r)"
  by (cases visValue) auto

lemma coveredBy_child:
  "r = [] \<or> coveredBy vc r \<Longrightarrow> coveredBy ((key, JObj vc) # rest) (key # r)"
  by auto

lemma filterEntries_Cons:
  "filterEntries m ((key, visValue) # rest) c acc =
     filterEntries m rest c (filterStep m key visValue c acc)"
  by (simp add: filterStep_def)

text \<open>The step leaves the accumulator as it is, or assigns one value under the key.\<close>

lemma filterStep_cases:
  "filterStep m key visValue c acc = acc \<or>
   (\<exists>vc. visValue = JObj vc \<and> isObject (readProp c key) \<and>
         filterStep m key visValue c acc =
           assignProp key (JObj (filterEntries m vc (readProp c key) [])) acc) \<or>
   (isLeaf visValue \<and> isVisibilityAllowed (leafVisibility visValue) m \<and>
      filterStep m key visValue c acc = assignProp key (nullish (readProp c key) JNull) acc)"
  by (cases visValue) (auto simp: filterStep_def isLeaf_def Let_def)

lemma filterEntries_paths:
  "isKeyPath (filterEntries m vis c acc) p \<Longrightarrow> isKeyPath acc p \<or> coveredBy vis p"
proof (induction m vis c acc arbitrary: p rule: filterEntries.induct)
  case (1 m c acc)
  then show ?case by simp
next
  case (2 m key visValue rest c acc)
  let ?acc' = "filterStep m key visValue c acc"
  from "2.prems" have "isKeyPath (filterEntries m rest c ?acc') p"
    by (simp only: filterEntries_Cons)
  then have "isKeyPath ?acc' p \<or> coveredBy rest p"
    using "2.IH"(2)[of p] by (simp add: filterStep_def)
  then show ?case
  proof
    assume "coveredBy rest p"
    then show ?thesis by (simp add: coveredBy_Cons)
  next
    assume a: "isKeyPath ?acc' p"
    from filterStep_cases[of m key visValue c acc]
    consider (same) "?acc' = acc"
      | (nested) vc where "visValue = JObj vc" "isObject (readProp c key)"
          "?acc' = assignProp key (JObj (filterEntries m vc (readProp c key) [])) acc"
      | (leaf) "isLeaf visValue"
          "?acc' = assignProp key (nullish (readProp c key) JNull) acc"
      by blast
    then show ?thesis
    proof cases
      case same
      with a show ?thesis by simp
    next
      case nested
      let ?child = "filterEntries m vc (readProp c key) []"
      have child: "\<And>q. isKeyPath ?child q \<Longrightarrow> coveredBy vc q"
        using "2.IH"(1)[OF nested(1) refl nested(2)] by (auto simp: isKeyPath_Nil)
      from a nested(3) have "isKeyPath acc p \<or> (\<exists>r. p = key # r \<and> (r = [] \<or> isKeyPath ?child r))"
        by (auto dest: isKeyPath_assign)
      then show ?thesis using child coveredBy_child nested(1) by blast
    next
      case leaf
      then have nl: "\<not> (\<exists>vc. visValue = JObj vc)" by (auto simp: isLeaf_def)
      from a leaf(2) have "isKeyPath acc p \<or> (\<exists>r. p = key # r)"
        by (auto dest: isKeyPath_assign)
      then show ?thesis using coveredBy_leaf[OF nl] by blast
    qed
  qed
qed

lemma lowerChar_idem: "lowerChar (lowerChar c) = lowerChar c"
  by (simp add: lowerChar_def)

lemma toLowerCase_idem: "toLowerCase (toLowerCase s) = toLowerCase s"
  by (simp add: toLowerCase_def lowerChar_idem)


lemma filterEntries_lowerLabels:
  "filterEntries m (lowerLabels vis) c acc = filterEntries m vis c acc"
proof (induction m vis c acc rule: filterEntries.induct)
  case (1 m c acc)
  then show ?case by simp
next
  case (2 m key visValue rest c acc)
  show ?case
  proof (cases visValue)
    case (JObj vc)
    show ?thesis
    proof (cases "isObject (readProp c key)")
      case True
      show ?thesis
        using "2.IH"(1)[OF JObj refl True] "2.IH"(2) JObj True
        by (simp add: Let_def)
    next
      case False
      then show ?thesis using "2.IH"(2) JObj by simp
    qed
  qed (use "2.IH"(2) in \<open>simp_all add: leafVisibility_def toLowerCase_idem\<close>)
qed














text \<open>
  Claim C1. The claim reads: every key present at any nesting depth of the result of
  \<open>filterConfigByVisibility\<close> is a key of the visibility tree at the corresponding
  position. As stated it fails below a leaf label: the value of a key annotated with a leaf
  is copied whole, nested keys included. What holds for every config, tree and level:
  every key path of the result follows keys of the visibility tree until the path ends or
  reaches a key annotated with a leaf label. So a key of the result at the top level, or
  inside an object the filter built from a nested visibility node, is always a key of the
  visibility tree at that position.
\<close>

theorem filter_keys_covered:
  assumes "isKeyPath (filterConfigByVisibility cfg vis lvl) p"
  shows "coveredBy (case vis of None \<Rightarrow> [] | Some v \<Rightarrow> v) p"
  using filterEntries_paths[of _ _ "JObj cfg" "[]" p] assms
  by (auto simp: filterConfigByVisibility_def filterByVisibilityKeys_def isKeyPath_Nil)

theorem filter_keys_covered_witness:
  "isKeyPath
     (filterConfigByVisibility
        [(''app'', JObj [(''url'', JStr ''u''), (''key'', JStr ''s'')]),
         (''frontend'', JObj [(''url'', JStr ''f'')])]
        (Some [(''app'', JObj [(''url'', JStr ''public''), (''key'', JStr ''private'')]),
               (''frontend'', JObj [(''url'', JStr ''public'')])])
        (Some Public))
     [''app'', ''url''] \<and>
   coveredBy
     [(''app'', JObj [(''url'', JStr ''public''), (''key'', JStr ''private'')]),
      (''frontend'', JObj [(''url'', JStr ''public'')])]
     [''app'', ''url'']"
proof -
  have h: "isKeyPath
     (filterConfigByVisibility
        [(''app'', JObj [(''url'', JStr ''u''), (''key'', JStr ''s'')]),
         (''frontend'', JObj [(''url'', JStr ''f'')])]
        (Some [(''app'', JObj [(''url'', JStr ''public''), (''key'', JStr ''private'')]),
               (''frontend'', JObj [(''url'', JStr ''public'')])])
        (Some Public))
     [''app'', ''url'']"
    by code_simp
  from filter_keys_covered[OF h] h show ?thesis by simp
qed

text \<open>
  With \<open>config = {app: {secret: "s"}}\<close> and \<open>visibility = {app: "public"}\<close> the result is
  \<open>{app: {secret: "s"}}\<close>: the key \<open>secret\<close> is in the result at \<open>app.secret\<close>, where the
  visibility tree has no key.
\<close>

theorem filter_unannotated_nested_key_counterexample:
  "isKeyPath
     (filterConfigByVisibility
        [(''app'', JObj [(''secret'', JStr ''s'')])]
        (Some [(''app'', JStr ''public'')])
        (Some Public))
     [''app'', ''secret''] \<and>
   \<not> isKeyPath [(''app'', JStr ''public'')] [''app'', ''secret'']"
  by code_simp




text \<open>
  Claim C3. For every config object, \<open>filterPublicConfig\<close> raises when the visibility tree
  is absent or is the empty object, and otherwise returns \<open>filterConfigByVisibility\<close> of
  the config at minimum level public.
\<close>

theorem filterPublicConfig_raises_or_filters:
  "filterPublicConfig cfg vis =
     (if vis = None \<or> vis = Some [] then Inl VisibilityMissing
      else Inr (filterConfigByVisibility cfg vis (Some Public)))"
  by (cases vis) (auto simp: filterPublicConfig_def)

theorem filterPublicConfig_raises_or_filters_witness:
  "filterPublicConfig [(''a'', JNum 1)] None = Inl VisibilityMissing \<and>
   filterPublicConfig [(''a'', JNum 1)] (Some []) = Inl VisibilityMissing \<and>
   filterPublicConfig [(''a'', JNum 1), (''b'', JNum 2)] (Some [(''a'', JStr ''public'')])
     = Inr [(''a'', JNum 1)]"
proof -
  have "filterConfigByVisibility [(''a'', JNum 1), (''b'', JNum 2)] (Some [(''a'', JStr ''public'')]) (Some Public)
          = [(''a'', JNum 1)]"
    by code_simp
  then show ?thesis
    using filterPublicConfig_raises_or_filters[of "[(''a'', JNum 1)]" None]
      filterPublicConfig_raises_or_filters[of "[(''a'', JNum 1)]" "Some []"]
      filterPublicConfig_raises_or_filters[of "[(''a'', JNum 1), (''b'', JNum 2)]" "Some [(''a'', JStr ''public'')]"]
    by simp
qed

text \<open>
  Claim C9. Two visibility trees that differ only in the letter case of their string leaf
  labels (they have the same image under \<open>lowerLabels\<close>) give the same filtered result,
  for every config object and minimum level.
\<close>

theorem filter_label_case_invariant:
  assumes "lowerLabels vis = lowerLabels vis'"
  shows "filterConfigByVisibility cfg (Some vis) m = filterConfigByVisibility cfg (Some vis') m"
proof -
  have "\<And>lvl. filterEntries lvl vis (JObj cfg) [] = filterEntries lvl vis' (JObj cfg) []"
    using filterEntries_lowerLabels[of _ vis "JObj cfg" "[]"]
      filterEntries_lowerLabels[of _ vis' "JObj cfg" "[]"] assms
    by simp
  then show ?thesis
    by (simp add: filterConfigByVisibility_def filterByVisibilityKeys_def)
qed

theorem filter_label_case_invariant_witness:
  "filterConfigByVisibility [(''app'', JObj [(''url'', JStr ''u'')])]
     (Some [(''app'', JObj [(''url'', JStr ''PUBLIC'')])]) (Some Public)
   = filterConfigByVisibility [(''app'', JObj [(''url'', JStr ''u'')])]
     (Some [(''app'', JObj [(''url'', JStr ''public'')])]) (Some Public) \<and>
   filterConfigByVisibility [(''app'', JObj [(''url'', JStr ''u'')])]
     (Some [(''app'', JObj [(''url'', JStr ''PUBLIC'')])]) (Some Public)
   = [(''app'', JObj [(''url'', JStr ''u'')])]"
proof -
  have h: "lowerLabels [(''app'', JObj [(''url'', JStr ''PUBLIC'')])]
         = lowerLabels [(''app'', JObj [(''url'', JStr ''public'')])]"
    by (simp add: toLowerCase_def lowerChar_def)
  have e: "filterConfigByVisibility [(''app'', JObj [(''url'', JStr ''u'')])]
     (Some [(''app'', JObj [(''url'', JStr ''public'')])]) (Some Public)
   = [(''app'', JObj [(''url'', JStr ''u'')])]"
    by code_simp
  from filter_label_case_invariant[OF h, of "[(''app'', JObj [(''url'', JStr ''u'')])]" "Some Public"] e
  show ?thesis by simp
qed

subsection \<open>Tenant cache\<close>

lemma length_delete_present:
  "distinct (map fst al) \<Longrightarrow> map_of al k = Some v \<Longrightarrow> Suc (length (AList.delete k al)) = length al"
proof (induction al)
  case Nil
  then show ?case by simp
next
  case (Cons a al)
  show ?case
  proof (cases "fst a = k")
    case True
    with Cons.prems(1) have "k \<notin> fst ` set al" by auto
    then have "AList.delete k al = al" by (simp add: delete_id)
    with True show ?thesis by (cases a) simp
  next
    case False
    with Cons show ?thesis by (cases a) auto
  qed
qed

lemma set_distinct: "distinct (map fst (cache svc)) \<Longrightarrow> distinct (map fst (cache (TenantCacheService_set svc now key tn)))"
  by (simp add: TenantCacheService_set_def Let_def distinct_update)

lemma get_distinct: "distinct (map fst (cache svc)) \<Longrightarrow> distinct (map fst (cache (snd (TenantCacheService_get svc now key))))"
  by (simp add: TenantCacheService_get_def distinct_delete split: option.splits)

text \<open>
  Claim C6. For every key and tenant record, with insertion at time \<open>t0\<close> (milliseconds,
  the unit of \<open>Date.now()\<close>; the service keeps the configured TTL of \<open>ttlSeconds\<close> as
  \<open>ttlSeconds * 1000\<close>): under the lazy policy \<open>set\<close> stores an entry that expires at
  \<open>t0 + ttl\<close>, a \<open>get\<close> up to that instant returns the stored tenant and leaves the cache
  as it is, and a \<open>get\<close> after it returns absent and removes the entry, so that the entry
  count decreases by one; under preload \<open>set\<close> stores an entry that never expires; under
  disabled \<open>set\<close> changes nothing and \<open>get\<close> always returns absent. The cache is a
  \<open>Map\<close>, so its keys are distinct.
\<close>

theorem cache_policy:
  assumes "distinct (map fst (cache svc))"
  shows
    "(mode svc = Lazy \<longrightarrow>
        (let svc' = TenantCacheService_set svc t0 key tn in
           map_of (cache svc') key = Some \<lparr>tenant = tn, expiresAt = At (t0 + ttl svc)\<rparr> \<and>
           (\<forall>t1. t1 \<le> t0 + ttl svc \<longrightarrow> TenantCacheService_get svc' t1 key = (Some tn, svc')) \<and>
           (\<forall>t1. t1 > t0 + ttl svc \<longrightarrow>
              fst (TenantCacheService_get svc' t1 key) = None \<and>
              map_of (cache (snd (TenantCacheService_get svc' t1 key))) key = None \<and>
              Suc (length (cache (snd (TenantCacheService_get svc' t1 key)))) = length (cache svc')))) \<and>
     (mode svc = Preload \<longrightarrow>
        (let svc' = TenantCacheService_set svc t0 key tn in
           map_of (cache svc') key = Some \<lparr>tenant = tn, expiresAt = Infinity\<rparr> \<and>
           (\<forall>t1. TenantCacheService_get svc' t1 key = (Some tn, svc')))) \<and>
     (mode svc = Disabled \<longrightarrow>
        TenantCacheService_set svc t0 key tn = svc \<and>
        (\<forall>t1 k. TenantCacheService_get svc t1 k = (None, svc))) \<and>
     ttl (newTenantCacheService (Some Lazy) (Some ttlSeconds) prefix) = ttlSeconds * 1000 \<and>
     cache (newTenantCacheService m (Some ttlSeconds) prefix) = []"
proof -
  let ?svc' = "TenantCacheService_set svc t0 key tn"
  have lazy: "mode svc = Lazy \<Longrightarrow>
      map_of (cache ?svc') key = Some \<lparr>tenant = tn, expiresAt = At (t0 + ttl svc)\<rparr>"
    by (simp add: TenantCacheService_set_def update_conv')
  have m': "mode ?svc' = mode svc" by (simp add: TenantCacheService_set_def Let_def)
  have d': "distinct (map fst (cache ?svc'))" using assms by (rule set_distinct)
  have before: "mode svc = Lazy \<Longrightarrow> t1 \<le> t0 + ttl svc \<Longrightarrow>
      TenantCacheService_get ?svc' t1 key = (Some tn, ?svc')" for t1
    using lazy m' by (simp add: TenantCacheService_get_def)
  have after: "mode svc = Lazy \<Longrightarrow> t1 > t0 + ttl svc \<Longrightarrow>
      TenantCacheService_get ?svc' t1 key = (None, ?svc'\<lparr>cache := AList.delete key (cache ?svc')\<rparr>)" for t1
    using lazy m' by (simp add: TenantCacheService_get_def)
  have gone: "map_of (AList.delete key (cache ?svc')) key = None"
    by (simp add: delete_conv')
  have len: "mode svc = Lazy \<Longrightarrow> Suc (length (AList.delete key (cache ?svc'))) = length (cache ?svc')"
    using length_delete_present[OF d'] lazy by blast
  have pre: "mode svc = Preload \<Longrightarrow>
      map_of (cache ?svc') key = Some \<lparr>tenant = tn, expiresAt = Infinity\<rparr>"
    by (simp add: TenantCacheService_set_def update_conv')
  have preget: "mode svc = Preload \<Longrightarrow> TenantCacheService_get ?svc' t1 key = (Some tn, ?svc')" for t1
    using pre m' by (simp add: TenantCacheService_get_def)
  have dis: "mode svc = Disabled \<Longrightarrow> TenantCacheService_set svc t0 key tn = svc"
    by (simp add: TenantCacheService_set_def)
  have disget: "mode svc = Disabled \<Longrightarrow> TenantCacheService_get svc t1 k = (None, svc)" for t1 k
    by (simp add: TenantCacheService_get_def)
  show ?thesis
    using lazy before after gone len pre preget dis disget
    by (simp add: Let_def newTenantCacheService_def)
qed

theorem cache_policy_witness:
  "TenantCacheService_get (TenantCacheService_set lazyOneSecond 5000 ''acme'' (exampleTenant [])) 5000 ''acme''
     = (Some (exampleTenant []), TenantCacheService_set lazyOneSecond 5000 ''acme'' (exampleTenant [])) \<and>
   fst (TenantCacheService_get (TenantCacheService_set lazyOneSecond 5000 ''acme'' (exampleTenant [])) 6001 ''acme'')
     = None \<and>
   length (cache (TenantCacheService_set lazyOneSecond 5000 ''acme'' (exampleTenant []))) = 1 \<and>
   length (cache (snd (TenantCacheService_get
      (TenantCacheService_set lazyOneSecond 5000 ''acme'' (exampleTenant [])) 6001 ''acme''))) = 0"
proof -
  have d: "distinct (map fst (cache lazyOneSecond))"
    by (simp add: lazyOneSecond_def newTenantCacheService_def)
  have m: "mode lazyOneSecond = Lazy" "ttl lazyOneSecond = 1000" "cache lazyOneSecond = []"
    by (simp_all add: lazyOneSecond_def newTenantCacheService_def)
  have l: "length (cache (TenantCacheService_set lazyOneSecond 5000 ''acme'' (exampleTenant []))) = 1"
    using m by (simp add: TenantCacheService_set_def)
  from cache_policy[OF d, of 5000 "''acme''" "exampleTenant []"] m l
  show ?thesis by (simp add: Let_def)
qed

subsection \<open>Identifier extraction and cookie names\<close>

text \<open>
  Claim C8. Under the subdomain strategy with level 0, a request whose derived host is
  \<open>"x.a.b.com"\<close> yields the identifier \<open>"x"\<close>. The claim also says that the host
  \<open>"a.b.com"\<close> yields an absent identifier; it has three labels, and the code yields its
  first label \<open>"a"\<close>. A host of two labels, such as \<open>"b.com"\<close>, yields an absent
  identifier.
\<close>

theorem subdomain_level0:
  assumes "strategy sc = SubdomainStrategy" and "subdomainLevel sc = Some 0 \<or> subdomainLevel sc = None"
  shows "(extractDomain req = ''b.com'' \<longrightarrow> extractIdentifier sc req = None) \<and>
         (extractDomain req = ''a.b.com'' \<longrightarrow> extractIdentifier sc req = Some ''a'') \<and>
         (extractDomain req = ''x.a.b.com'' \<longrightarrow> extractIdentifier sc req = Some ''x'')"
  using assms by (auto simp: extractIdentifier_def extractSubdomain_def)

theorem subdomain_level0_witness:
  "extractDomain (exampleRequest ''b.com:8080'') = ''b.com'' \<and>
   extractIdentifier subdomainLevel0 (exampleRequest ''b.com:8080'') = None \<and>
   extractDomain (exampleRequest ''x.a.b.com'') = ''x.a.b.com'' \<and>
   extractIdentifier subdomainLevel0 (exampleRequest ''x.a.b.com'') = Some ''x''"
proof -
  have s: "strategy subdomainLevel0 = SubdomainStrategy" by (simp add: subdomainLevel0_def)
  have l: "subdomainLevel subdomainLevel0 = Some 0 \<or> subdomainLevel subdomainLevel0 = None"
    by (simp add: subdomainLevel0_def)
  have a: "extractDomain (exampleRequest ''b.com:8080'') = ''b.com''"
    by (simp add: extractDomain_def exampleRequest_def nonEmpty_def)
  have x: "extractDomain (exampleRequest ''x.a.b.com'') = ''x.a.b.com''"
    by (simp add: extractDomain_def exampleRequest_def nonEmpty_def)
  from subdomain_level0[OF s l, of "exampleRequest ''b.com:8080''"]
       subdomain_level0[OF s l, of "exampleRequest ''x.a.b.com''"] a x
  show ?thesis by simp
qed

text \<open>The host \<open>"a.b.com"\<close> yields \<open>"a"\<close>, not an absent identifier.\<close>

theorem subdomain_three_labels_counterexample:
  "extractDomain (exampleRequest ''a.b.com'') = ''a.b.com'' \<and>
   extractIdentifier subdomainLevel0 (exampleRequest ''a.b.com'') = Some ''a''"
  by (simp add: extractIdentifier_def extractSubdomain_def extractDomain_def exampleRequest_def
      nonEmpty_def subdomainLevel0_def)

lemma customCookieName_chain:
  "optChain (optChain (case tn of None \<Rightarrow> JUndefined | Some t \<Rightarrow> JObj (config t)) section) ''name''
     = customCookieName section tn"
  by (auto simp: customCookieName_def optChain_def getProp_def inheritedProp_def
      objectPrototypeMembers_def split: option.splits jsval.splits)

text \<open>
  Claim C10. For every tenant value, \<open>null\<close> and \<open>undefined\<close> included (\<open>None\<close>):
  \<open>createTenantSessionCookieName\<close> returns the tenant's \<open>config.session.name\<close> when that is
  a truthy string, else \<open>tenant_<id>_session\<close> when the tenant has a truthy id, else
  \<open>laravel_session\<close>; \<open>createTenantXsrfCookieName\<close> returns \<open>config.xsrf.name\<close>, else
  \<open>tenant_<id>_xsrf\<close>, else \<open>XSRF-TOKEN\<close>. The name is declared \<open>name?: string\<close>; it
  is absent, falsy or a string. Both are functions of the tenant value alone.
\<close>

theorem cookie_names:
  "(\<forall>s. customCookieName ''session'' tn = JStr s \<and> s \<noteq> [] \<longrightarrow>
        createTenantSessionCookieName tn = JStr s) \<and>
   (\<not> truthy (customCookieName ''session'' tn) \<and> hasTruthyId tn \<longrightarrow>
        createTenantSessionCookieName tn = JStr (''tenant_'' @ tenant_id (the tn) @ ''_session'')) \<and>
   (\<not> truthy (customCookieName ''session'' tn) \<and> \<not> hasTruthyId tn \<longrightarrow>
        createTenantSessionCookieName tn = JStr ''laravel_session'') \<and>
   (\<forall>s. customCookieName ''xsrf'' tn = JStr s \<and> s \<noteq> [] \<longrightarrow>
        createTenantXsrfCookieName tn = JStr s) \<and>
   (\<not> truthy (customCookieName ''xsrf'' tn) \<and> hasTruthyId tn \<longrightarrow>
        createTenantXsrfCookieName tn = JStr (''tenant_'' @ tenant_id (the tn) @ ''_xsrf'')) \<and>
   (\<not> truthy (customCookieName ''xsrf'' tn) \<and> \<not> hasTruthyId tn \<longrightarrow>
        createTenantXsrfCookieName tn = JStr ''XSRF-TOKEN'')"
  by (auto simp: createTenantSessionCookieName_def createTenantXsrfCookieName_def
        customCookieName_chain hasTruthyId_def Let_def split: option.splits)

theorem cookie_names_witness:
  "createTenantSessionCookieName
     (Some (exampleTenant [(''session'', JObj [(''name'', JStr ''custom_session'')])]))
     = JStr ''custom_session'' \<and>
   createTenantXsrfCookieName
     (Some (exampleTenant [(''session'', JObj [(''name'', JStr ''custom_session'')])]))
     = JStr ''tenant_t1_xsrf'' \<and>
   createTenantSessionCookieName (None :: Tenant option) = JStr ''laravel_session'' \<and>
   createTenantXsrfCookieName (None :: Tenant option) = JStr ''XSRF-TOKEN''"
proof -
  let ?t = "Some (exampleTenant [(''session'', JObj [(''name'', JStr ''custom_session'')])])"
  have a: "customCookieName ''session'' ?t = JStr ''custom_session''"
    by (simp add: customCookieName_def exampleTenant_def)
  have b: "\<not> truthy (customCookieName ''xsrf'' ?t)" "hasTruthyId ?t" "tenant_id (the ?t) = ''t1''"
    by (simp_all add: customCookieName_def exampleTenant_def hasTruthyId_def)
  have c: "\<not> truthy (customCookieName ''session'' (None :: Tenant option))"
    "\<not> truthy (customCookieName ''xsrf'' (None :: Tenant option))"
    "\<not> hasTruthyId (None :: Tenant option)"
    by (simp_all add: customCookieName_def hasTruthyId_def)
  from cookie_names[of ?t] cookie_names[of "None :: Tenant option"] a b c
  show ?thesis by simp
qed

subsection \<open>Tenant resolution and the merge stage\<close>

lemma js_bind_Returns: "m s = (Returns a, s') \<Longrightarrow> js_bind m f s = f a s'"
  by (simp add: js_bind_def)

lemma logMessage_result:
  "logMessage d lvl msg s =
     (fst (logger d lvl msg (world s)),
      s\<lparr>world := snd (logger d lvl msg (world s)), calls := calls s @ [CallLogger lvl msg]\<rparr>)"
  by (simp add: logMessage_def invoke_def split: prod.splits)

lemma resolveTenant_caught:
  assumes "\<forall>msg w. fst (logger d LogError msg w) = Returns ()"
    and "fst (resolveTenant_try d req s) = Throws e"
  shows "fst (resolveTenant d req s) = Returns None"
proof -
  obtain s' where t: "resolveTenant_try d req s = (Throws e, s')"
    using assms(2) by (cases "resolveTenant_try d req s") auto
  have "fst (logMessage d LogError ''Tenant resolution failed'' s') = Returns ()"
    using assms(1) by (simp add: logMessage_result)
  then have "fst (js_bind (logMessage d LogError ''Tenant resolution failed'')
                    (\<lambda>_. js_return (None :: Tenant option)) s') = Returns None"
    by (cases "logMessage d LogError ''Tenant resolution failed'' s'")
       (simp add: js_bind_def js_return_def)
  with t show ?thesis by (simp add: resolveTenant_def js_catch_def)
qed

lemma resolveTenant_returned:
  assumes "fst (resolveTenant_try d req s) = Returns t"
  shows "resolveTenant d req s = resolveTenant_try d req s"
  using assms by (cases "resolveTenant_try d req s") (simp add: resolveTenant_def js_catch_def)

lemma try_extract_throws:
  "resolver_extractIdentifier d req (world s) = (Throws e, w1) \<Longrightarrow>
     fst (resolveTenant_try d req s) = Throws e"
  by (simp add: resolveTenant_try_def js_bind_def invoke_def)

lemma try_cache_get_throws:
  "resolver_extractIdentifier d req (world s) = (Returns (Some ident), w1) \<Longrightarrow> ident \<noteq> [] \<Longrightarrow>
   cache_get d ident w1 = (Throws e, w2) \<Longrightarrow>
     fst (resolveTenant_try d req s) = Throws e"
  by (simp add: resolveTenant_try_def js_bind_def invoke_def nonEmpty_def)

lemma try_fetch_throws:
  "resolver_extractIdentifier d req (world s) = (Returns (Some ident), w1) \<Longrightarrow> ident \<noteq> [] \<Longrightarrow>
   cache_get d ident w1 = (Returns None, w2) \<Longrightarrow>
   resolver_resolveTenantByIdentifier d ident w2 = (Throws e, w3) \<Longrightarrow>
     fst (resolveTenant_try d req s) = Throws e"
  by (simp add: resolveTenant_try_def js_bind_def invoke_def nonEmpty_def)

lemma try_cache_set_throws:
  "resolver_extractIdentifier d req (world s) = (Returns (Some ident), w1) \<Longrightarrow> ident \<noteq> [] \<Longrightarrow>
   cache_get d ident w1 = (Returns None, w2) \<Longrightarrow>
   resolver_resolveTenantByIdentifier d ident w2 = (Returns result, w3) \<Longrightarrow>
   result_error result = None \<Longrightarrow> result_tenant result = Some tn \<Longrightarrow>
   cache_set d ident tn w3 = (Throws e, w4) \<Longrightarrow>
     fst (resolveTenant_try d req s) = Throws e"
  by (simp add: resolveTenant_try_def js_bind_def invoke_def nonEmpty_def)

text \<open>
  Claim C4. For every request and every behaviour of the extractor, the cache and the
  fetch collaborator, throwing included, \<open>resolveTenant\<close> returns and never throws: when
  the \<open>try\<close> block throws, whatever the fault, the result is \<open>null\<close>, and when it returns,
  \<open>resolveTenant\<close> is that run with its tenant record or \<open>null\<close>. In particular a throw
  of the extractor, of \<open>cache.get\<close>, of the fetch or of \<open>cache.set\<close> gives \<open>null\<close>. The
  logger is not among the collaborators the claim ranges over; its \<open>error\<close> method, which
  the \<open>catch\<close> block calls, is taken not to throw.
\<close>

theorem resolveTenant_never_throws:
  assumes "\<forall>msg w. fst (logger d LogError msg w) = Returns ()"
  shows "(\<exists>t. fst (resolveTenant d req s) = Returns t) \<and>
         (\<forall>e. fst (resolveTenant_try d req s) = Throws e \<longrightarrow>
              fst (resolveTenant d req s) = Returns None) \<and>
         (\<forall>t. fst (resolveTenant_try d req s) = Returns t \<longrightarrow>
              resolveTenant d req s = resolveTenant_try d req s) \<and>
         (\<forall>e w1. resolver_extractIdentifier d req (world s) = (Throws e, w1) \<longrightarrow>
              fst (resolveTenant d req s) = Returns None) \<and>
         (\<forall>ident w1 e w2.
              resolver_extractIdentifier d req (world s) = (Returns (Some ident), w1) \<and>
              ident \<noteq> [] \<and> cache_get d ident w1 = (Throws e, w2) \<longrightarrow>
              fst (resolveTenant d req s) = Returns None) \<and>
         (\<forall>ident w1 w2 e w3.
              resolver_extractIdentifier d req (world s) = (Returns (Some ident), w1) \<and>
              ident \<noteq> [] \<and> cache_get d ident w1 = (Returns None, w2) \<and>
              resolver_resolveTenantByIdentifier d ident w2 = (Throws e, w3) \<longrightarrow>
              fst (resolveTenant d req s) = Returns None) \<and>
         (\<forall>ident w1 w2 result w3 tn e w4.
              resolver_extractIdentifier d req (world s) = (Returns (Some ident), w1) \<and>
              ident \<noteq> [] \<and> cache_get d ident w1 = (Returns None, w2) \<and>
              resolver_resolveTenantByIdentifier d ident w2 = (Returns result, w3) \<and>
              result_error result = None \<and> result_tenant result = Some tn \<and>
              cache_set d ident tn w3 = (Throws e, w4) \<longrightarrow>
              fst (resolveTenant d req s) = Returns None)"
proof -
  have caught: "\<And>e. fst (resolveTenant_try d req s) = Throws e \<Longrightarrow>
                   fst (resolveTenant d req s) = Returns None"
    using assms by (rule resolveTenant_caught)
  have some: "\<exists>t. fst (resolveTenant d req s) = Returns t"
  proof (cases "fst (resolveTenant_try d req s)")
    case (Returns t)
    then show ?thesis using resolveTenant_returned[of d req s t] by simp
  next
    case (Throws e)
    then show ?thesis using caught by blast
  qed
  show ?thesis
  proof (intro conjI allI impI)
    show "\<exists>t. fst (resolveTenant d req s) = Returns t" by (rule some)
  next
    fix e assume "fst (resolveTenant_try d req s) = Throws e"
    then show "fst (resolveTenant d req s) = Returns None" by (rule caught)
  next
    fix t assume "fst (resolveTenant_try d req s) = Returns t"
    then show "resolveTenant d req s = resolveTenant_try d req s"
      by (rule resolveTenant_returned)
  next
    fix e w1 assume "resolver_extractIdentifier d req (world s) = (Throws e, w1)"
    then have "fst (resolveTenant_try d req s) = Throws e" by (rule try_extract_throws)
    then show "fst (resolveTenant d req s) = Returns None" by (rule caught)
  next
    fix ident w1 e w2
    assume "resolver_extractIdentifier d req (world s) = (Returns (Some ident), w1) \<and>
            ident \<noteq> [] \<and> cache_get d ident w1 = (Throws e, w2)"
    then have "fst (resolveTenant_try d req s) = Throws e"
      using try_cache_get_throws[of d req s ident w1 e w2] by simp
    then show "fst (resolveTenant d req s) = Returns None" by (rule caught)
  next
    fix ident w1 w2 e w3
    assume "resolver_extractIdentifier d req (world s) = (Returns (Some ident), w1) \<and>
            ident \<noteq> [] \<and> cache_get d ident w1 = (Returns None, w2) \<and>
            resolver_resolveTenantByIdentifier d ident w2 = (Throws e, w3)"
    then have "fst (resolveTenant_try d req s) = Throws e"
      using try_fetch_throws[of d req s ident w1 w2 e w3] by simp
    then show "fst (resolveTenant d req s) = Returns None" by (rule caught)
  next
    fix ident w1 w2 result w3 tn e w4
    assume "resolver_extractIdentifier d req (world s) = (Returns (Some ident), w1) \<and>
            ident \<noteq> [] \<and> cache_get d ident w1 = (Returns None, w2) \<and>
            resolver_resolveTenantByIdentifier d ident w2 = (Returns result, w3) \<and>
            result_error result = None \<and> result_tenant result = Some tn \<and>
            cache_set d ident tn w3 = (Throws e, w4)"
    then have "fst (resolveTenant_try d req s) = Throws e"
      using try_cache_set_throws[of d req s ident w1 w2 result w3 tn e w4] by simp
    then show "fst (resolveTenant d req s) = Returns None" by (rule caught)
  qed
qed

lemma resolveTenant_try_hit:
  assumes "resolver_extractIdentifier d req (world s) = (Returns (Some ident), w1)"
    and "ident \<noteq> []"
    and "cache_get d ident w1 = (Returns (Some tn), w2)"
  shows "resolveTenant_try d req s =
           (case logger d LogDebug ''Tenant resolved from cache'' w2 of
              (Returns u, w3) \<Rightarrow>
                (Returns (Some tn),
                 s\<lparr>world := w3,
                   calls := calls s @ [CallExtractIdentifier, CallCacheGet ident,
                                       CallLogger LogDebug ''Tenant resolved from cache'']\<rparr>)
            | (Throws e, w3) \<Rightarrow>
                (Throws e,
                 s\<lparr>world := w3,
                   calls := calls s @ [CallExtractIdentifier, CallCacheGet ident,
                                       CallLogger LogDebug ''Tenant resolved from cache'']\<rparr>))"
  using assms
  by (simp add: resolveTenant_try_def js_bind_def invoke_def nonEmpty_def logMessage_def
      js_return_def split: prod.splits outcome.splits)

text \<open>
  Claim C5. When the extracted identifier is truthy and \<open>cache.get\<close> returns a tenant,
  \<open>resolveTenant\<close> never calls \<open>resolveTenantByIdentifier\<close>, and it returns the cached
  record; the calls it makes are the extraction, the cache lookup and one debug log line
  (which is taken not to throw for the record to be returned).
\<close>

theorem cache_hit_no_fetch:
  assumes "resolver_extractIdentifier d req (world s) = (Returns (Some ident), w1)"
    and "ident \<noteq> []"
    and "cache_get d ident w1 = (Returns (Some tn), w2)"
  shows "\<not> list_ex isFetchCall (newCalls s (snd (resolveTenant d req s))) \<and>
         (fst (logger d LogDebug ''Tenant resolved from cache'' w2) = Returns () \<longrightarrow>
            fst (resolveTenant d req s) = Returns (Some tn) \<and>
            newCalls s (snd (resolveTenant d req s)) =
              [CallExtractIdentifier, CallCacheGet ident,
               CallLogger LogDebug ''Tenant resolved from cache''])"
proof (cases "logger d LogDebug ''Tenant resolved from cache'' w2")
  case (Pair r w3)
  show ?thesis
  proof (cases r)
    case (Returns u)
    with Pair resolveTenant_try_hit[OF assms] show ?thesis
      by (simp add: resolveTenant_def js_catch_def newCalls_def isFetchCall_def)
  next
    case (Throws e)
    with Pair resolveTenant_try_hit[OF assms] show ?thesis
      by (simp add: resolveTenant_def js_catch_def newCalls_def isFetchCall_def js_bind_def
          logMessage_result js_return_def split: outcome.splits prod.splits)
  qed
qed


lemma keepsViews_return: "keepsViews (js_return x)"
  by (simp add: keepsViews_def js_return_def)

lemma keepsViews_invoke: "keepsViews (invoke c m)"
  by (simp add: keepsViews_def invoke_def split: prod.splits)

lemma keepsViews_log: "keepsViews (logMessage d lvl msg)"
  by (simp add: logMessage_def keepsViews_invoke)

lemma keepsViews_bind:
  assumes "keepsViews m" and "\<And>a. keepsViews (f a)"
  shows "keepsViews (js_bind m f)"
  unfolding keepsViews_def
proof
  fix s
  obtain r s' where ms: "m s = (r, s')" by (cases "m s")
  from assms(1) ms have v: "request s' = request s \<and> windowBag s' = windowBag s"
    by (auto simp: keepsViews_def dest: spec[of _ s])
  show "request (snd (js_bind m f s)) = request s \<and> windowBag (snd (js_bind m f s)) = windowBag s"
  proof (cases r)
    case (Returns a)
    from assms(2)[of a] have "request (snd (f a s')) = request s' \<and> windowBag (snd (f a s')) = windowBag s'"
      by (simp add: keepsViews_def)
    with ms Returns v show ?thesis by (simp add: js_bind_def)
  next
    case (Throws e)
    with ms v show ?thesis by (simp add: js_bind_def)
  qed
qed

lemma keepsViews_catch:
  assumes "keepsViews m" and "\<And>e. keepsViews (h e)"
  shows "keepsViews (js_catch m h)"
  unfolding keepsViews_def
proof
  fix s
  obtain r s' where ms: "m s = (r, s')" by (cases "m s")
  from assms(1) ms have v: "request s' = request s \<and> windowBag s' = windowBag s"
    by (auto simp: keepsViews_def dest: spec[of _ s])
  show "request (snd (js_catch m h s)) = request s \<and> windowBag (snd (js_catch m h s)) = windowBag s"
  proof (cases r)
    case (Returns a)
    with ms v show ?thesis by (simp add: js_catch_def)
  next
    case (Throws e)
    from assms(2)[of e] have "request (snd (h e s')) = request s' \<and> windowBag (snd (h e s')) = windowBag s'"
      by (simp add: keepsViews_def)
    with ms Throws v show ?thesis by (simp add: js_catch_def)
  qed
qed

lemma keepsViews_resolveTenant_try: "keepsViews (resolveTenant_try d req)"
  unfolding resolveTenant_try_def
  by (intro keepsViews_bind keepsViews_invoke keepsViews_log keepsViews_return)
     (auto intro!: keepsViews_bind keepsViews_invoke keepsViews_log keepsViews_return
        split: option.splits)

lemma keepsViews_resolveTenant: "keepsViews (resolveTenant d req)"
  unfolding resolveTenant_def
  by (intro keepsViews_catch keepsViews_resolveTenant_try keepsViews_bind keepsViews_log
      keepsViews_return)

lemma resolveTenant_views:
  "request (snd (resolveTenant d req s)) = request s"
  "windowBag (snd (resolveTenant d req s)) = windowBag s"
  using keepsViews_resolveTenant[of d req] by (simp_all add: keepsViews_def)

text \<open>
  Claim C7. For a request that resolves to a null tenant, under the \<open>404\<close> policy (also
  the default) and the \<open>redirect\<close> policy \<open>enrichWindowBag\<close> throws and leaves the
  per-request context and the client payload as they were. Under the \<open>render\<close> policy the
  claim says that the tenant field of the per-request context is set to \<open>null\<close>: the code
  does not do so. \<open>enrichWindowBag\<close> returns at its \<open>render\<close> guard before it calls
  \<open>handleTenantNotFound\<close>, so the request is left as it was, while the \<open>render\<close> case of
  \<open>handleTenantNotFound\<close>, which would create the context and set its tenant to \<open>null\<close>,
  is never reached.
\<close>

theorem render_policy_leaves_tenant_unset:
  assumes "fst (resolveTenant d (request s) s) = Returns None"
  shows "(onTenantNotFound hc = Some ActionRender \<longrightarrow>
            fst (enrichWindowBag hc d s) = Returns () \<and>
            request (snd (enrichWindowBag hc d s)) = request s \<and>
            windowBag (snd (enrichWindowBag hc d s)) = windowBag s) \<and>
         (onTenantNotFound hc = None \<or> onTenantNotFound hc = Some Action404 \<longrightarrow>
            fst (enrichWindowBag hc d s) = Throws TenantNotFound \<and>
            request (snd (enrichWindowBag hc d s)) = request s \<and>
            windowBag (snd (enrichWindowBag hc d s)) = windowBag s) \<and>
         (\<forall>target code. onTenantNotFound hc = Some (ActionRedirect target code) \<longrightarrow>
            (\<exists>c. fst (enrichWindowBag hc d s) = Throws (Redirect target c)) \<and>
            request (snd (enrichWindowBag hc d s)) = request s \<and>
            windowBag (snd (enrichWindowBag hc d s)) = windowBag s) \<and>
         (onTenantNotFound hc = Some ActionRender \<longrightarrow>
            (\<exists>c. quvelContext (request (snd (handleTenantNotFound hc d s))) = Some c \<and>
                 context_tenant c = Some None))"
proof -
  obtain s' where r: "resolveTenant d (request s) s = (Returns None, s')"
    using assms by (cases "resolveTenant d (request s) s") auto
  from resolveTenant_views[of d "request s" s] r
  have v: "request s' = request s" "windowBag s' = windowBag s" by simp_all
  have a: "onTenantNotFound hc = Some ActionRender \<Longrightarrow> enrichWindowBag hc d s = (Returns (), s')"
    using r by (simp add: enrichWindowBag_def js_bind_def js_return_def)
  have b: "onTenantNotFound hc = None \<or> onTenantNotFound hc = Some Action404 \<Longrightarrow>
             enrichWindowBag hc d s = (Throws TenantNotFound, s')"
    using r by (auto simp: enrichWindowBag_def js_bind_def handleTenantNotFound_def js_throw_def)
  have c: "onTenantNotFound hc = Some ActionRender \<Longrightarrow>
            (\<exists>c. quvelContext (request (snd (handleTenantNotFound hc d s))) = Some c \<and>
                 context_tenant c = Some None)"
    by (simp add: handleTenantNotFound_def Let_def)
  have e: "onTenantNotFound hc = Some (ActionRedirect target code) \<Longrightarrow>
             enrichWindowBag hc d s =
               (Throws (Redirect target
                  (case code of Some c \<Rightarrow> if c \<noteq> 0 then c else 302 | None \<Rightarrow> 302)), s')"
    for target code
    using r by (simp add: enrichWindowBag_def js_bind_def handleTenantNotFound_def js_throw_def)
  from a b c e v show ?thesis by auto
qed


lemma example_logger: "logger (hooksCollaborators sc) lvl msg w = (Returns (), w)"
  by (simp add: hooksCollaborators_def)

lemma example_extract:
  "resolver_extractIdentifier (hooksCollaborators subdomainLevel0) (exampleSSRRequest host) w =
     (Returns (extractIdentifier subdomainLevel0 (exampleSSRRequest host)), w)"
  by (simp add: hooksCollaborators_def)

lemma example_identifier:
  "extractIdentifier subdomainLevel0 (exampleSSRRequest ''x.a.b.com'') = Some ''x''"
  "extractIdentifier subdomainLevel0 (exampleSSRRequest ''b.com'') = None"
  by (simp_all add: extractIdentifier_def extractSubdomain_def extractDomain_def
      exampleSSRRequest_def nonEmpty_def subdomainLevel0_def)



theorem resolveTenant_never_throws_witness:
  "fst (resolver_resolveTenantByIdentifier (hooksCollaborators subdomainLevel0) ''x''
          (world (exampleState lazyOneSecond ''x.a.b.com''))) = Throws (Fault ''ECONNREFUSED'') \<and>
   resolveTenant (hooksCollaborators subdomainLevel0) (exampleSSRRequest ''x.a.b.com'')
     (exampleState lazyOneSecond ''x.a.b.com'')
     = (Returns None,
        (exampleState lazyOneSecond ''x.a.b.com'')
          \<lparr>calls := [CallExtractIdentifier, CallCacheGet ''x'', CallResolveTenantByIdentifier ''x'',
                     CallLogger LogError ''Tenant resolution failed'']\<rparr>)"
proof -
  let ?d = "hooksCollaborators subdomainLevel0"
  let ?s = "exampleState lazyOneSecond ''x.a.b.com''"
  have h: "\<forall>msg w. fst (logger ?d LogError msg w) = Returns ()"
    by (simp add: example_logger)
  have thrown: "fst (resolveTenant_try ?d (exampleSSRRequest ''x.a.b.com'') ?s)
          = Throws (Fault ''ECONNREFUSED'')"
    by (simp add: resolveTenant_try_def js_bind_def invoke_def example_extract example_identifier
        nonEmpty_def hooksCollaborators_def exampleState_def TenantCacheService_get_def
        lazyOneSecond_def newTenantCacheService_def)
  from resolveTenant_never_throws[OF h, of "exampleSSRRequest ''x.a.b.com''" ?s]
  have "\<forall>e. fst (resolveTenant_try ?d (exampleSSRRequest ''x.a.b.com'') ?s) = Throws e \<longrightarrow>
            fst (resolveTenant ?d (exampleSSRRequest ''x.a.b.com'') ?s) = Returns None"
    by (rule conjunct1[OF conjunct2])
  with thrown
  have normalized: "fst (resolveTenant ?d (exampleSSRRequest ''x.a.b.com'') ?s) = Returns None"
    by simp
  have "snd (resolveTenant_try ?d (exampleSSRRequest ''x.a.b.com'') ?s)
          = ?s\<lparr>calls := [CallExtractIdentifier, CallCacheGet ''x'',
                            CallResolveTenantByIdentifier ''x'']\<rparr>"
    by (simp add: resolveTenant_try_def js_bind_def invoke_def example_extract example_identifier
        nonEmpty_def hooksCollaborators_def exampleState_def TenantCacheService_get_def
        lazyOneSecond_def newTenantCacheService_def)
  with thrown have "snd (resolveTenant ?d (exampleSSRRequest ''x.a.b.com'') ?s)
          = ?s\<lparr>calls := [CallExtractIdentifier, CallCacheGet ''x'',
                            CallResolveTenantByIdentifier ''x'',
                            CallLogger LogError ''Tenant resolution failed'']\<rparr>"
    by (cases "resolveTenant_try ?d (exampleSSRRequest ''x.a.b.com'') ?s")
       (simp add: resolveTenant_def js_catch_def js_bind_def logMessage_result example_logger
          js_return_def)
  with normalized show ?thesis
    by (simp add: prod_eq_iff hooksCollaborators_def exampleState_def)
qed

theorem cache_hit_no_fetch_witness:
  "fst (resolveTenant (hooksCollaborators subdomainLevel0) (exampleSSRRequest ''x.a.b.com'')
          (exampleState (TenantCacheService_set lazyOneSecond 4500 ''x'' (exampleTenant []))
             ''x.a.b.com''))
     = Returns (Some (exampleTenant [])) \<and>
   newCalls
     (exampleState (TenantCacheService_set lazyOneSecond 4500 ''x'' (exampleTenant [])) ''x.a.b.com'')
     (snd (resolveTenant (hooksCollaborators subdomainLevel0) (exampleSSRRequest ''x.a.b.com'')
          (exampleState (TenantCacheService_set lazyOneSecond 4500 ''x'' (exampleTenant []))
             ''x.a.b.com'')))
     = [CallExtractIdentifier, CallCacheGet ''x'', CallLogger LogDebug ''Tenant resolved from cache'']"
proof -
  let ?svc = "TenantCacheService_set lazyOneSecond 4500 ''x'' (exampleTenant [])"
  let ?s = "exampleState ?svc ''x.a.b.com''"
  let ?d = "hooksCollaborators subdomainLevel0"
  have e: "resolver_extractIdentifier ?d (exampleSSRRequest ''x.a.b.com'') (world ?s)
             = (Returns (Some ''x''), world ?s)"
    by (simp add: example_extract example_identifier)
  have n: "''x'' \<noteq> ([] :: string)" by simp
  have g: "cache_get ?d ''x'' (world ?s) = (Returns (Some (exampleTenant [])), world ?s)"
    by (simp add: hooksCollaborators_def exampleState_def TenantCacheService_get_def
        TenantCacheService_set_def lazyOneSecond_def newTenantCacheService_def)
  have l: "fst (logger ?d LogDebug ''Tenant resolved from cache'' (world ?s)) = Returns ()"
    by (simp add: example_logger)
  from cache_hit_no_fetch[OF e n g] l show ?thesis by simp
qed

theorem render_policy_leaves_tenant_unset_witness:
  "fst (enrichWindowBag renderPolicy (hooksCollaborators subdomainLevel0)
          (exampleState lazyOneSecond ''b.com'')) = Returns () \<and>
   quvelContext (request (snd (enrichWindowBag renderPolicy (hooksCollaborators subdomainLevel0)
          (exampleState lazyOneSecond ''b.com'')))) = None \<and>
   windowBag (snd (enrichWindowBag renderPolicy (hooksCollaborators subdomainLevel0)
          (exampleState lazyOneSecond ''b.com'')))
     = [(''__APP_CONFIG__'', JObj [(''app'', JObj [(''name'', JStr ''Base'')])])]"
proof -
  let ?s = "exampleState lazyOneSecond ''b.com''"
  let ?d = "hooksCollaborators subdomainLevel0"
  have q: "request ?s = exampleSSRRequest ''b.com''" by (simp add: exampleState_def)
  have r: "fst (resolveTenant ?d (request ?s) ?s) = Returns None"
    by (simp add: q resolveTenant_def resolveTenant_try_def js_catch_def js_bind_def invoke_def
        example_extract example_identifier nonEmpty_def logMessage_def example_logger
        js_return_def)
  have p: "onTenantNotFound renderPolicy = Some ActionRender" by (simp add: renderPolicy_def)
  from render_policy_leaves_tenant_unset[OF r, of renderPolicy] p show ?thesis
    by (simp add: exampleState_def exampleSSRRequest_def)
qed

subsection \<open>The merge stage on a resolved tenant\<close>

text \<open>
  A run of \<open>enrichWindowBag\<close> on a request whose tenant is fetched from the backend: the
  client payload receives the public field \<open>app.name\<close> and neither the private
  \<open>app.key\<close> nor the protected \<open>branding\<close>; its \<open>tenant\<close> entry carries the filtered
  configuration, its trace context the tenant id, and its session the XSRF cookie name
  without the session cookie name.
\<close>

lemma acme_public: "filterPublicConfig (AList.delete ''__visibility'' acmeConfig)
   (Some (objectEntries (getProp acmeConfig ''__visibility'')))
   = Inr [(''app'', JObj [(''name'', JStr ''Acme Portal'')])]"
  by code_simp

lemma acme_resolve:
  "resolveTenant (hooksCollaborators subdomainLevel0) (exampleSSRRequest ''x.a.b.com'') answeringState
   = (Returns (Some (exampleTenant acmeConfig)),
      answeringState\<lparr>world := (world answeringState)\<lparr>service :=
           TenantCacheService_set lazyOneSecond 5000 ''x'' (exampleTenant acmeConfig)\<rparr>,
         calls := [CallExtractIdentifier, CallCacheGet ''x'', CallResolveTenantByIdentifier ''x'',
                   CallCacheSet ''x'' (exampleTenant acmeConfig),
                   CallLogger LogInfo ''Tenant resolved from API'']\<rparr>)"
  by (simp add: resolveTenant_def resolveTenant_try_def js_catch_def js_bind_def invoke_def
        example_extract example_identifier nonEmpty_def logMessage_def example_logger
        js_return_def hooksCollaborators_def answeringState_def TenantCacheService_get_def
        lazyOneSecond_def newTenantCacheService_def)

lemma acme_extract:
  "extractPublicTenantConfig d (exampleTenant acmeConfig) s
     = (Returns [(''app'', JObj [(''name'', JStr ''Acme Portal'')])], s)"
proof -
  have t: "config (exampleTenant acmeConfig) = acmeConfig"
    by (simp add: exampleTenant_def)
  have v: "truthy (getProp acmeConfig ''__visibility'')"
    "length (objectEntries (getProp acmeConfig ''__visibility'')) > 0"
    by (simp_all add: acmeConfig_def getProp_def objectEntries_def)
  show ?thesis
    using v by (simp add: extractPublicTenantConfig_def t acme_public js_return_def)
qed

lemma acme_merge:
  assumes "map_of base ''app'' = None" and "map_of base ''frontend'' = None"
  shows "mergeHandler renderPolicy base [(''app'', JObj [(''name'', JStr ''Acme Portal'')])] s
     = (Returns (),
        AList.update ''app'' (JObj [(''name'', JStr ''Acme Portal''), (''url'', JStr [])]) base,
        [(''app'', JObj [(''name'', JStr ''Acme Portal'')])], s)"
  using assms
  by (simp add: mergeHandler_def renderPolicy_def defaultMergeTenantConfig_def mergeSection_def
      getProp_def assignNested_def optChain_def update_conv' Let_def inheritedProp_def
      objectPrototypeMembers_def)

lemma end_to_end:
  "windowBag (snd (enrichWindowBag renderPolicy (hooksCollaborators subdomainLevel0) answeringState))
   = [(''__APP_CONFIG__'',
       JObj [(''trace'', JObj [(''tenant'', JStr ''t1'')]),
             (''session'', JObj [(''xsrf_cookie'', JStr ''tenant_t1_xsrf'')]),
             (''app'', JObj [(''name'', JStr ''Acme Portal''), (''url'', JStr [])]),
             (''tenant'',
              JObj [(''id'', JStr ''t1''), (''name'', JStr ''Acme''),
                    (''identifier'', JStr ''acme.example.com''), (''parent_id'', JNull),
                    (''is_active'', JBool True), (''is_internal'', JBool False),
                    (''config'', JObj [(''app'', JObj [(''name'', JStr ''Acme Portal'')])])])])]"
proof -
  let ?d = "hooksCollaborators subdomainLevel0"
  let ?tn = "exampleTenant acmeConfig"
  obtain s1 where s1: "resolveTenant ?d (request answeringState) answeringState = (Returns (Some ?tn), s1)"
    and q1: "request s1 = exampleSSRRequest ''x.a.b.com''"
    and b1: "windowBag s1 = [(''__APP_CONFIG__'', JObj [(''trace'', JObj [])])]"
    using acme_resolve by (simp add: answeringState_def)
  have cs: "createTenantSessionCookieName (Some ?tn) = JStr ''tenant_t1_session''"
    "createTenantXsrfCookieName (Some ?tn) = JStr ''tenant_t1_xsrf''"
    by (simp_all add: createTenantSessionCookieName_def createTenantXsrfCookieName_def
        exampleTenant_def acmeConfig_def optChain_def getProp_def inheritedProp_def
        objectPrototypeMembers_def)
  have tf: "tenant_id ?tn = ''t1''" "name ?tn = ''Acme''" "identifier ?tn = ''acme.example.com''"
    "parent_id ?tn = None" "is_active ?tn = True" "is_internal ?tn = False"
    by (simp_all add: exampleTenant_def)
  obtain s2 where s2: "buildSsrContext renderPolicy ?d ?tn s1 = (Returns (), s2)"
    and q2: "map_option appConfig (quvelContext (request s2))
               = Some (Some [(''app'', JObj [(''name'', JStr ''Acme Portal''), (''url'', JStr [])]),
                             (''session'', JObj [(''cookie'', JStr ''tenant_t1_session''),
                                                 (''xsrf_cookie'', JStr ''tenant_t1_xsrf'')])])"
    and b2: "windowBag s2 = windowBag s1"
    by (simp add: buildSsrContext_def ensureQuvelContext_def q1 exampleSSRRequest_def acme_extract
        acme_merge getProp_def setContext_def assignNested_def cs Let_def inheritedProp_def
        objectPrototypeMembers_def)
  have "windowBag (snd (buildPublicConfig renderPolicy ?d ?tn s2))
     = [(''__APP_CONFIG__'',
       JObj [(''trace'', JObj [(''tenant'', JStr ''t1'')]),
             (''session'', JObj [(''xsrf_cookie'', JStr ''tenant_t1_xsrf'')]),
             (''app'', JObj [(''name'', JStr ''Acme Portal''), (''url'', JStr [])]),
             (''tenant'',
              JObj [(''id'', JStr ''t1''), (''name'', JStr ''Acme''),
                    (''identifier'', JStr ''acme.example.com''), (''parent_id'', JNull),
                    (''is_active'', JBool True), (''is_internal'', JBool False),
                    (''config'', JObj [(''app'', JObj [(''name'', JStr ''Acme Portal'')])])])])]"
    using q2 b2 b1
    by (auto simp: buildPublicConfig_def getProp_def mergeRequestSession_def optChain_def
        assignNested_def commitConfig_def acme_extract acme_merge publicTenant_def
        stripSessionCookie_def tf Let_def inheritedProp_def objectPrototypeMembers_def
        objectEntries_def split: option.splits)
  with s1 s2 show ?thesis
    by (simp add: enrichWindowBag_def js_bind_def)
qed

subsection \<open>Examples from the documentation\<close>

text \<open>
  The example in the comment of \<open>filterConfigByVisibility\<close>, and the strategy examples of
  the README (subdomain level 1, path indices, the domain with its port stripped, a missing
  header).
\<close>

lemma docstring_filter_example:
  "filterConfigByVisibility
     [(''app'', JObj [(''url'', JStr ''https://api.example.com''), (''key'', JStr ''secret'')]),
      (''frontend'', JObj [(''url'', JStr ''https://app.example.com'')])]
     (Some [(''app'', JObj [(''url'', JStr ''public''), (''key'', JStr ''private'')]),
            (''frontend'', JObj [(''url'', JStr ''public'')])])
     (Some Public)
   = [(''app'', JObj [(''url'', JStr ''https://api.example.com'')]),
      (''frontend'', JObj [(''url'', JStr ''https://app.example.com'')])]"
  by code_simp

lemma readme_strategy_examples:
  "extractIdentifier \<lparr>strategy = SubdomainStrategy, headerName = None, pathIndex = None,
                       subdomainLevel = Some 1\<rparr> (exampleRequest ''app.acme.myapp.com'') = Some ''acme''"
  "extractIdentifier \<lparr>strategy = PathStrategy, headerName = None, pathIndex = Some 1,
                       subdomainLevel = None\<rparr> (exampleRequest ''myapp.com'') = Some ''dashboard''"
  "extractIdentifier \<lparr>strategy = PathStrategy, headerName = None, pathIndex = Some 2,
                       subdomainLevel = None\<rparr> (exampleRequest ''myapp.com'') = None"
  "extractIdentifier \<lparr>strategy = DomainStrategy, headerName = None, pathIndex = None,
                       subdomainLevel = None\<rparr> (exampleRequest ''acme.com:443'') = Some ''acme.com''"
  "extractIdentifier \<lparr>strategy = HeaderStrategy, headerName = None, pathIndex = None,
                       subdomainLevel = None\<rparr> (exampleRequest ''acme.com'') = None"
  by (simp_all add: extractIdentifier_def extractSubdomain_def extractFromPath_def
      extractFromHeader_def extractDomain_def exampleRequest_def nonEmpty_def)

end
